theory Spec2Isabelle
  imports Complex_Main "HOL-Library.Word"
begin

unbundle bit_operations_syntax

section \<open>Exceptions\<close>

text \<open>
  The exception classes of \<^verbatim>\<open>ext4.py\<close> and the built-in Python exceptions its code can
  raise. \<^verbatim>\<open>Ext4Error\<close> is raised with three different messages; the message kind is kept as
  an argument. \<open>OutOfFuel\<close> is not an exception: it marks that a loop of the model used up
  its iteration bound, where the source would still be running.
\<close>

datatype ext4_reason = NotADirectory | UnknownStorage

datatype error =
    Ext4Error ext4_reason
  | BlockMapError
  | EndOfStreamError
  | MagicError
  | FileNotFoundError
  | OSError int
  | ValueError
  | IndexError
  | AttributeError
  | ZeroDivisionError
  | TypeError
  | OverflowError
  | OutOfFuel

type_synonym byte = "8 word"

section \<open>Low level: packed little-endian structures\<close>

text \<open>Little-endian value of a byte string (\<^verbatim>\<open>int.from_bytes(bs, "little")\<close>).\<close>

fun le_nat :: "byte list \<Rightarrow> nat" where
  "le_nat [] = 0"
| "le_nat (b # bs) = unat b + 256 * le_nat bs"

text \<open>The bytes of a structure field: \<open>sz\<close> bytes at offset \<open>off\<close> of the buffer.\<close>

definition field :: "byte list \<Rightarrow> nat \<Rightarrow> nat \<Rightarrow> byte list" where
  "field buf off sz = take sz (drop off buf)"

definition c_ushort :: "byte list \<Rightarrow> nat \<Rightarrow> 16 word" where
  "c_ushort buf off = word_of_nat (le_nat (field buf off 2))"

definition c_uint :: "byte list \<Rightarrow> nat \<Rightarrow> 32 word" where
  "c_uint buf off = word_of_nat (le_nat (field buf off 4))"

text \<open>
  \<^verbatim>\<open>ext4_struct.__getattr__\<close> joins a \<^verbatim>\<open>*_lo\<close> and a \<^verbatim>\<open>*_hi\<close> field:
  \<^verbatim>\<open>(hi << (8 * size)) | lo\<close>, with \<open>size\<close> the byte size of the low field.
\<close>

definition lo_hi :: "nat \<Rightarrow> int \<Rightarrow> int \<Rightarrow> int" where
  "lo_hi size_lo lo hi = (push_bit (8 * size_lo) hi) OR lo"

text \<open>
  Attribute access on a structure, for a name the model does not know statically. A
  structure is given by the table of its fields (name, byte size, value). Python first
  looks the name up among the fields; when that fails, \<^verbatim>\<open>__getattr__\<close> tries
  \<^verbatim>\<open>name + "_lo"\<close> and \<^verbatim>\<open>name + "_hi"\<close>, and when one of them is missing it falls back
  to the plain lookup, which raises \<^verbatim>\<open>AttributeError\<close>.
\<close>

definition ext4_struct_getattr :: "(string \<times> nat \<times> int) list \<Rightarrow> string \<Rightarrow> error + int" where
  "ext4_struct_getattr fields name =
     (case map_of fields name of
        Some (sz, v) \<Rightarrow> Inr v
      | None \<Rightarrow>
          (case map_of fields (name @ ''_lo'') of
             None \<Rightarrow> Inl AttributeError
           | Some (size_lo, lo) \<Rightarrow>
               (case map_of fields (name @ ''_hi'') of
                  None \<Rightarrow> Inl AttributeError
                | Some (size_hi, hi) \<Rightarrow> Inr (lo_hi size_lo lo hi))))"

subsection \<open>ext4_extent, ext4_extent_header, ext4_extent_idx\<close>

record ext4_extent =
  ee_block :: "32 word"
  ee_len :: "16 word"
  ee_start_hi :: "16 word"
  ee_start_lo :: "32 word"

definition parse_ext4_extent :: "byte list \<Rightarrow> ext4_extent" where
  "parse_ext4_extent buf =
     \<lparr>ee_block = c_uint buf 0, ee_len = c_ushort buf 4,
      ee_start_hi = c_ushort buf 6, ee_start_lo = c_uint buf 8\<rparr>"

definition ee_start :: "ext4_extent \<Rightarrow> int" where
  "ee_start ex = lo_hi 4 (uint (ee_start_lo ex)) (uint (ee_start_hi ex))"

record ext4_extent_header =
  eh_magic :: "16 word"
  eh_entries :: "16 word"
  eh_max :: "16 word"
  eh_depth :: "16 word"
  eh_generation :: "32 word"

definition parse_ext4_extent_header :: "byte list \<Rightarrow> ext4_extent_header" where
  "parse_ext4_extent_header buf =
     \<lparr>eh_magic = c_ushort buf 0, eh_entries = c_ushort buf 2, eh_max = c_ushort buf 4,
      eh_depth = c_ushort buf 6, eh_generation = c_uint buf 8\<rparr>"

record ext4_extent_idx =
  ei_block :: "32 word"
  ei_leaf_lo :: "32 word"
  ei_leaf_hi :: "16 word"
  ei_unused :: "16 word"

definition parse_ext4_extent_idx :: "byte list \<Rightarrow> ext4_extent_idx" where
  "parse_ext4_extent_idx buf =
     \<lparr>ei_block = c_uint buf 0, ei_leaf_lo = c_uint buf 4,
      ei_leaf_hi = c_ushort buf 8, ei_unused = c_ushort buf 10\<rparr>"

definition ei_leaf :: "ext4_extent_idx \<Rightarrow> int" where
  "ei_leaf ix = lo_hi 4 (uint (ei_leaf_lo ix)) (uint (ei_leaf_hi ix))"

text \<open>The three structures are 12 bytes each (\<^verbatim>\<open>ctypes.sizeof\<close>).\<close>

definition sizeof_ext4_extent_header :: nat where "sizeof_ext4_extent_header = 12"
definition sizeof_ext4_extent :: nat where "sizeof_ext4_extent = 12"
definition sizeof_ext4_extent_idx :: nat where "sizeof_ext4_extent_idx = 12"

text \<open>An array \<^verbatim>\<open>structure * n\<close> read from a buffer: \<open>n\<close> consecutive elements.\<close>

definition parse_array :: "(byte list \<Rightarrow> 'a) \<Rightarrow> nat \<Rightarrow> nat \<Rightarrow> byte list \<Rightarrow> 'a list" where
  "parse_array parse sz n buf = map (\<lambda>i. parse (field buf (i * sz) sz)) [0..<n]"

subsection \<open>ext4_group_descriptor\<close>

text \<open>Of the group descriptor, the fields the reader uses: the inode bitmap and the inode table.\<close>

record ext4_group_descriptor =
  bg_inode_bitmap_lo :: "32 word"
  bg_inode_table_lo :: "32 word"
  bg_inode_bitmap_hi :: "32 word"
  bg_inode_table_hi :: "32 word"

definition parse_ext4_group_descriptor :: "byte list \<Rightarrow> ext4_group_descriptor" where
  "parse_ext4_group_descriptor buf =
     \<lparr>bg_inode_bitmap_lo = c_uint buf 0x04, bg_inode_table_lo = c_uint buf 0x08,
      bg_inode_bitmap_hi = c_uint buf 0x24, bg_inode_table_hi = c_uint buf 0x28\<rparr>"

definition sizeof_ext4_group_descriptor :: nat where "sizeof_ext4_group_descriptor = 64"

definition bg_inode_table :: "ext4_group_descriptor \<Rightarrow> int" where
  "bg_inode_table gd = lo_hi 4 (uint (bg_inode_table_lo gd)) (uint (bg_inode_table_hi gd))"

subsection \<open>ext4_inode\<close>

text \<open>Of the inode record, the fields the reader uses.\<close>

record ext4_inode =
  i_mode :: "16 word"
  i_size_lo :: "32 word"
  i_flags :: "32 word"
  i_size_hi :: "32 word"

definition S_IFDIR :: "16 word" where "S_IFDIR = 0x4000"
definition S_IFBLK :: "16 word" where "S_IFBLK = 0x6000"
definition S_IFREG :: "16 word" where "S_IFREG = 0x8000"
definition S_IFLNK :: "16 word" where "S_IFLNK = 0xA000"
definition S_IFSOCK :: "16 word" where "S_IFSOCK = 0xC000"

definition EXT4_EXTENTS_FL :: int where "EXT4_EXTENTS_FL = 0x80000"
definition EXT4_INLINE_DATA_FL :: int where "EXT4_INLINE_DATA_FL = 0x10000000"

definition parse_ext4_inode :: "byte list \<Rightarrow> ext4_inode" where
  "parse_ext4_inode buf =
     \<lparr>i_mode = c_ushort buf 0x00, i_size_lo = c_uint buf 0x04,
      i_flags = c_uint buf 0x20, i_size_hi = c_uint buf 0x6C\<rparr>"

definition sizeof_ext4_inode :: nat where "sizeof_ext4_inode = 0xA0"

text \<open>\<^verbatim>\<open>ext4_inode.i_block.offset\<close>: the 60-byte payload starts at byte 0x28 of the record.\<close>

definition i_block_offset :: int where "i_block_offset = 0x28"

text \<open>The field table of an inode record, for attribute access by name.\<close>

definition ext4_inode_fields :: "ext4_inode \<Rightarrow> (string \<times> nat \<times> int) list" where
  "ext4_inode_fields ino =
     [(''i_mode'', 2, uint (i_mode ino)),
      (''i_size_lo'', 4, uint (i_size_lo ino)),
      (''i_flags'', 4, uint (i_flags ino)),
      (''i_size_hi'', 4, uint (i_size_hi ino))]"

definition ext4_inode_getattr :: "ext4_inode \<Rightarrow> string \<Rightarrow> error + int" where
  "ext4_inode_getattr ino name = ext4_struct_getattr (ext4_inode_fields ino) name"

text \<open>\<^verbatim>\<open>inode.i_size\<close>: no field has this name, so the two halves are joined.\<close>

definition i_size :: "ext4_inode \<Rightarrow> int" where
  "i_size ino = lo_hi 4 (uint (i_size_lo ino)) (uint (i_size_hi ino))"

subsection \<open>ext4_superblock\<close>

text \<open>Of the superblock, the fields the reader uses.\<close>

record ext4_superblock =
  s_inodes_count :: "32 word"
  s_log_block_size :: "32 word"
  s_inodes_per_group :: "32 word"
  s_magic :: "16 word"
  s_inode_size :: "16 word"
  s_desc_size :: "16 word"

definition parse_ext4_superblock :: "byte list \<Rightarrow> ext4_superblock" where
  "parse_ext4_superblock buf =
     \<lparr>s_inodes_count = c_uint buf 0x00, s_log_block_size = c_uint buf 0x18,
      s_inodes_per_group = c_uint buf 0x28, s_magic = c_ushort buf 0x38,
      s_inode_size = c_ushort buf 0x58, s_desc_size = c_ushort buf 0xFE\<rparr>"

definition sizeof_ext4_superblock :: nat where "sizeof_ext4_superblock = 0x400"

section \<open>MappingEntry\<close>

text \<open>
  A \<^verbatim>\<open>MappingEntry\<close> maps \<open>block_count\<close> file blocks from \<open>file_block_idx\<close> on to the disk
  blocks from \<open>disk_block_idx\<close> on. The fields are Python integers.
\<close>

record MappingEntry =
  file_block_idx :: int
  disk_block_idx :: int
  block_count :: int

text \<open>
  \<^verbatim>\<open>MappingEntry.optimize\<close> changes its argument in place: it sorts and shortens the list
  object and adds to the \<open>block_count\<close> of entry objects. The entry objects live in a store
  (an object's address is its position in the store), and a Python list of entries is a
  list of addresses.
\<close>

type_synonym addr = nat
type_synonym store = "MappingEntry list"

text \<open>\<^verbatim>\<open>MappingEntry(...)\<close>: a new object, at a fresh address.\<close>

definition new_entry :: "store \<Rightarrow> MappingEntry \<Rightarrow> store \<times> addr" where
  "new_entry st e = (st @ [e], length st)"

text \<open>\<^verbatim>\<open>MappingEntry.copy\<close>: a new object with the fields of the object at \<open>a\<close>.\<close>

definition MappingEntry_copy :: "store \<Rightarrow> addr \<Rightarrow> store \<times> addr" where
  "MappingEntry_copy st a =
     new_entry st \<lparr>file_block_idx = file_block_idx (st ! a),
                   disk_block_idx = disk_block_idx (st ! a),
                   block_count = block_count (st ! a)\<rparr>"

text \<open>\<^verbatim>\<open>list(map(MappingEntry.copy, entries))\<close>: a new list of new objects.\<close>

fun copy_all :: "store \<Rightarrow> addr list \<Rightarrow> store \<times> addr list" where
  "copy_all st [] = (st, [])"
| "copy_all st (a # as) =
     (case MappingEntry_copy st a of
        (st1, a') \<Rightarrow> (case copy_all st1 as of (st2, as') \<Rightarrow> (st2, a' # as')))"

text \<open>
  The two nested loops of \<^verbatim>\<open>optimize\<close>, as one recursion on the pair (list, \<open>idx\<close>):
  while \<open>idx\<close> is in the list, either the inner loop's condition holds, and its body pops
  \<open>entries[idx + 1]\<close> and adds its count to \<open>entries[idx]\<close>, or \<open>idx\<close> moves on.
\<close>

function optimize_loop :: "store \<Rightarrow> addr list \<Rightarrow> nat \<Rightarrow> store \<times> addr list" where
  "optimize_loop st entries idx =
     (if idx < length entries then
        (if idx + 1 < length entries \<and>
            disk_block_idx (st ! (entries ! idx)) + block_count (st ! (entries ! idx))
              = disk_block_idx (st ! (entries ! (idx + 1)))
         then
           (let tmp = entries ! (idx + 1);
                entries' = take (idx + 1) entries @ drop (idx + 2) entries;
                a = entries' ! idx;
                st' = st[a := (st ! a)\<lparr>block_count := block_count (st ! a) + block_count (st ! tmp)\<rparr>]
            in optimize_loop st' entries' idx)
         else optimize_loop st entries (idx + 1))
      else (st, entries))"
  by pat_completeness auto
termination
  by (relation "measure (\<lambda>(st, entries, idx). 2 * length entries - idx)") auto

declare optimize_loop.simps [simp del]

text \<open>\<^verbatim>\<open>entries.sort(key = ...)\<close> is stable, as \<open>sort_key\<close> is.\<close>

definition optimize :: "store \<Rightarrow> addr list \<Rightarrow> store \<times> addr list" where
  "optimize st entries =
     optimize_loop st (sort_key (\<lambda>a. file_block_idx (st ! a)) entries) 0"

section \<open>Volume\<close>

text \<open>
  The volume's stream is modelled by its content, as an in-memory binary stream
  (\<^verbatim>\<open>io.BytesIO\<close>) behaves: \<^verbatim>\<open>Volume.read\<close> positions the stream at the absolute offset
  before every read, so the stream's own position never influences a result and is not
  kept. A position and a length have to fit a signed 64-bit size, else the stream raises
  \<^verbatim>\<open>OverflowError\<close>. Positioning before the start raises \<^verbatim>\<open>ValueError\<close>. A non-negative
  length reads up to that many bytes, fewer at the end of the content; a negative length
  reads to the end.
\<close>

record Volume =
  ignore_flags :: bool
  ignore_magic :: bool
  v_offset :: int
  stream :: "byte list"
  superblock :: ext4_superblock
  group_descriptors :: "ext4_group_descriptor list"

definition fits_ssize :: "int \<Rightarrow> bool" where
  "fits_ssize n = (- (2 ^ 63) \<le> n \<and> n < 2 ^ 63)"

definition stream_read :: "int \<Rightarrow> byte list \<Rightarrow> int \<Rightarrow> int \<Rightarrow> error + byte list" where
  "stream_read base content offset byte_len =
     (if \<not> fits_ssize (base + offset) then Inl OverflowError
      else if base + offset < 0 then Inl ValueError
      else if \<not> fits_ssize byte_len then Inl OverflowError
      else if byte_len < 0 then Inr (drop (nat (base + offset)) content)
      else Inr (take (nat byte_len) (drop (nat (base + offset)) content)))"

definition Volume_read :: "Volume \<Rightarrow> int \<Rightarrow> int \<Rightarrow> error + byte list" where
  "Volume_read vol offset byte_len = stream_read (v_offset vol) (stream vol) offset byte_len"

text \<open>
  \<^verbatim>\<open>read_struct\<close>: \<^verbatim>\<open>from_buffer_copy\<close> raises \<^verbatim>\<open>ValueError\<close> when the buffer is shorter
  than the structure. The result is the structure's bytes, for the parser of its type.
\<close>

definition stream_read_struct :: "int \<Rightarrow> byte list \<Rightarrow> nat \<Rightarrow> int \<Rightarrow> error + byte list" where
  "stream_read_struct base content sz offset =
     (case stream_read base content offset (int sz) of
        Inl e \<Rightarrow> Inl e
      | Inr buf \<Rightarrow> if length buf < sz then Inl ValueError else Inr buf)"

definition Volume_read_struct :: "Volume \<Rightarrow> nat \<Rightarrow> int \<Rightarrow> error + byte list" where
  "Volume_read_struct vol sz offset = stream_read_struct (v_offset vol) (stream vol) sz offset"

definition block_size_of :: "ext4_superblock \<Rightarrow> int" where
  "block_size_of sb = push_bit (10 + unat (s_log_block_size sb)) 1"

definition block_size :: "Volume \<Rightarrow> int" where
  "block_size vol = block_size_of (superblock vol)"

text \<open>The loop of \<^verbatim>\<open>Volume.__init__\<close> over the group descriptor indices.\<close>

fun read_group_descriptors ::
  "int \<Rightarrow> byte list \<Rightarrow> int \<Rightarrow> int \<Rightarrow> nat list \<Rightarrow> error + ext4_group_descriptor list" where
  "read_group_descriptors base content table_offset desc_size [] = Inr []"
| "read_group_descriptors base content table_offset desc_size (group_desc_idx # rest) =
     (case stream_read_struct base content sizeof_ext4_group_descriptor
             (table_offset + int group_desc_idx * desc_size) of
        Inl e \<Rightarrow> Inl e
      | Inr buf \<Rightarrow>
          (case read_group_descriptors base content table_offset desc_size rest of
             Inl e \<Rightarrow> Inl e
           | Inr gds \<Rightarrow> Inr (parse_ext4_group_descriptor buf # gds)))"

text \<open>\<^verbatim>\<open>Volume.__init__\<close>: the superblock at 0x400, its magic, one descriptor per group.\<close>

definition Volume_init :: "byte list \<Rightarrow> int \<Rightarrow> bool \<Rightarrow> bool \<Rightarrow> error + Volume" where
  "Volume_init stream0 offset0 ignore_flags0 ignore_magic0 =
     (case stream_read_struct offset0 stream0 sizeof_ext4_superblock 0x400 of
        Inl e \<Rightarrow> Inl e
      | Inr buf \<Rightarrow>
          (let sb = parse_ext4_superblock buf in
           if \<not> ignore_magic0 \<and> s_magic sb \<noteq> 0xEF53 then Inl MagicError
           else if s_inodes_per_group sb = 0 then Inl ZeroDivisionError
           else
             (let n = unat (s_inodes_count sb) div unat (s_inodes_per_group sb);
                  group_desc_table_offset = (0x400 div block_size_of sb + 1) * block_size_of sb
              in case read_group_descriptors offset0 stream0 group_desc_table_offset
                        (uint (s_desc_size sb)) [0..<n] of
                   Inl e \<Rightarrow> Inl e
                 | Inr gds \<Rightarrow>
                     Inr \<lparr>ignore_flags = ignore_flags0, ignore_magic = ignore_magic0,
                          v_offset = offset0, stream = stream0, superblock = sb,
                          group_descriptors = gds\<rparr>)))"

section \<open>BlockReader\<close>

text \<open>
  The reader's state. Its block map holds the values of the entry objects the constructor
  copied: those objects are reachable through the reader only, and no operation of the
  reader changes them after construction (\<^verbatim>\<open>get_range_mapping\<close> trims copies). The
  volume a reader belongs to is passed to its operations.
\<close>

record BlockReader =
  byte_size :: int
  cursor :: int
  block_map :: "MappingEntry list"

definition EINVAL :: int where "EINVAL = 22"

definition SEEK_SET :: int where "SEEK_SET = 0"
definition SEEK_CUR :: int where "SEEK_CUR = 1"
definition SEEK_END :: int where "SEEK_END = 2"

text \<open>
  \<^verbatim>\<open>BlockReader.__init__\<close>, in the store of the caller: the entries of \<open>block_map0\<close> are
  copied, the counts of the copies are summed and compared, and the copies are optimized.
\<close>

definition BlockReader_init ::
  "store \<Rightarrow> Volume \<Rightarrow> int \<Rightarrow> addr list \<Rightarrow> error + store \<times> BlockReader" where
  "BlockReader_init st vol byte_size0 block_map0 =
     (case copy_all st block_map0 of
        (st1, copies) \<Rightarrow>
          (let block_count_sum = sum_list (map (\<lambda>a. block_count (st1 ! a)) copies) in
           if block_count_sum \<noteq> (byte_size0 - 1) div block_size vol + 1
           then Inl BlockMapError
           else (case optimize st1 copies of
                   (st2, entries) \<Rightarrow>
                     Inr (st2, \<lparr>byte_size = byte_size0, cursor = 0,
                                block_map = map (\<lambda>a. st2 ! a) entries\<rparr>))))"

fun get_block_mapping_loop :: "MappingEntry list \<Rightarrow> int \<Rightarrow> error + int" where
  "get_block_mapping_loop [] fbi = Inl BlockMapError"
| "get_block_mapping_loop (entry # rest) fbi =
     (if file_block_idx entry \<le> fbi \<and> fbi < file_block_idx entry + block_count entry
      then Inr (disk_block_idx entry + (fbi - file_block_idx entry))
      else get_block_mapping_loop rest fbi)"

definition get_block_mapping :: "BlockReader \<Rightarrow> int \<Rightarrow> error + int" where
  "get_block_mapping r fbi = get_block_mapping_loop (block_map r) fbi"

definition get_range_mapping :: "BlockReader \<Rightarrow> int \<Rightarrow> int \<Rightarrow> error + MappingEntry list" where
  "get_range_mapping r fbi cnt =
     (let mapping = filter (\<lambda>entry.
              (file_block_idx entry \<le> fbi \<and> fbi < file_block_idx entry + block_count entry)
            \<or> (fbi \<le> file_block_idx entry \<and> file_block_idx entry < fbi + cnt))
            (block_map r)
      in if length mapping = 0 then Inl BlockMapError
         else
           (let diff = fbi - file_block_idx (mapping ! 0);
                mapping1 =
                  (if diff > 0
                   then mapping[0 := \<lparr>file_block_idx = file_block_idx (mapping ! 0) + diff,
                                       disk_block_idx = disk_block_idx (mapping ! 0) + diff,
                                       block_count = block_count (mapping ! 0) - diff\<rparr>]
                   else mapping);
                l = length mapping1 - 1;
                diff2 = (file_block_idx (mapping1 ! l) + block_count (mapping1 ! l)) - (fbi + cnt);
                mapping2 =
                  (if diff2 > 0
                   then mapping1[l := (mapping1 ! l)\<lparr>block_count := block_count (mapping1 ! l) - diff2\<rparr>]
                   else mapping1)
            in Inr mapping2))"

text \<open>
  The loop over \<^verbatim>\<open>mapping[1 .. len - 2]\<close> in \<^verbatim>\<open>read\<close>: one read per entry, each of the
  whole entry; \<open>byte_len\<close> goes down by what was read.
\<close>

fun read_middle :: "Volume \<Rightarrow> MappingEntry list \<Rightarrow> int \<Rightarrow> error + byte list \<times> int" where
  "read_middle vol [] byte_len = Inr ([], byte_len)"
| "read_middle vol (m # ms) byte_len =
     (case Volume_read vol (disk_block_idx m * block_size vol) (block_count m * block_size vol) of
        Inl e \<Rightarrow> Inl e
      | Inr part \<Rightarrow>
          (case read_middle vol ms (byte_len - int (length part)) of
             Inl e \<Rightarrow> Inl e
           | Inr (parts, byte_len') \<Rightarrow> Inr (part @ parts, byte_len')))"

text \<open>The branch "content sprayed all over the place": at least two entries.\<close>

definition read_sprayed :: "Volume \<Rightarrow> MappingEntry list \<Rightarrow> int \<Rightarrow> int \<Rightarrow> error + byte list" where
  "read_sprayed vol mapping offset byte_len =
     (case Volume_read vol (disk_block_idx (mapping ! 0) * block_size vol + offset)
                           (block_count (mapping ! 0) * block_size vol - offset) of
        Inl e \<Rightarrow> Inl e
      | Inr block0 \<Rightarrow>
          (case read_middle vol (butlast (tl mapping)) (byte_len - int (length block0)) of
             Inl e \<Rightarrow> Inl e
           | Inr (parts, byte_len') \<Rightarrow>
               (case Volume_read vol (disk_block_idx (last mapping) * block_size vol) byte_len' of
                  Inl e \<Rightarrow> Inl e
                | Inr block_last \<Rightarrow> Inr (block0 @ parts @ block_last))))"

text \<open>The physical reads of \<^verbatim>\<open>read\<close>, for a clamped length other than 0.\<close>

definition read_blocks :: "Volume \<Rightarrow> BlockReader \<Rightarrow> int \<Rightarrow> error + byte list" where
  "read_blocks vol r byte_len =
     (let fbi = cursor r div block_size vol;
          offset = cursor r mod block_size vol
      in if fbi = (cursor r + byte_len - 1) div block_size vol
         then (case get_block_mapping r fbi of
                 Inl e \<Rightarrow> Inl e
               | Inr disk \<Rightarrow> Volume_read vol (disk * block_size vol + offset) byte_len)
         else
           (let cnt = (byte_len - 1) div block_size vol + 1 in
            case get_range_mapping r fbi cnt of
              Inl e \<Rightarrow> Inl e
            | Inr mapping \<Rightarrow>
                if length mapping = 1
                then Volume_read vol (disk_block_idx (mapping ! 0) * block_size vol + offset) byte_len
                else read_sprayed vol mapping offset byte_len))"

text \<open>
  \<^verbatim>\<open>BlockReader.read\<close>. The result pairs what the call returns or raises with the reader
  after the call: the cursor moves by the number of bytes obtained, also when the
  end-of-stream error follows; an exception raised earlier leaves it alone.
\<close>

definition BlockReader_read :: "Volume \<Rightarrow> BlockReader \<Rightarrow> int \<Rightarrow> (error + byte list) \<times> BlockReader" where
  "BlockReader_read vol r n =
     (if n < -1 then (Inl ValueError, r)
      else
        (let bytes_remaining = byte_size r - cursor r;
             byte_len = (if n = -1 then bytes_remaining else max 0 (min n bytes_remaining))
         in if byte_len = 0 then (Inr [], r)
            else
              (case read_blocks vol r byte_len of
                 Inl e \<Rightarrow> (Inl e, r)
               | Inr result \<Rightarrow>
                   (let r' = r\<lparr>cursor := cursor r + int (length result)\<rparr> in
                    if int (length result) \<noteq> byte_len then (Inl EndOfStreamError, r')
                    else (Inr result, r')))))"

text \<open>\<^verbatim>\<open>BlockReader.seek\<close>: any mode other than CUR and END counts from the start.\<close>

definition BlockReader_seek :: "BlockReader \<Rightarrow> int \<Rightarrow> int \<Rightarrow> (error + int) \<times> BlockReader" where
  "BlockReader_seek r seek seek_mode =
     (let seek' = (if seek_mode = SEEK_CUR then seek + cursor r
                   else if seek_mode = SEEK_END then seek + byte_size r
                   else seek)
      in if seek' < 0 then (Inl (OSError EINVAL), r)
         else (Inr seek', r\<lparr>cursor := seek'\<rparr>))"

definition BlockReader_tell :: "BlockReader \<Rightarrow> int" where
  "BlockReader_tell r = cursor r"

section \<open>Inode\<close>

text \<open>
  An inode as \<^verbatim>\<open>Inode.__init__\<close> leaves it: the index it was given (or \<^verbatim>\<open>None\<close>), its
  offset in the volume and the parsed record. The volume is passed to the operations.
\<close>

record Inode =
  inode_idx :: "int option"
  i_offset :: int
  inode :: ext4_inode

definition IT_CHECKSUM :: int where "IT_CHECKSUM = 0xDE"

definition Inode_init :: "Volume \<Rightarrow> int \<Rightarrow> int option \<Rightarrow> error + Inode" where
  "Inode_init vol offset idx =
     (case Volume_read_struct vol sizeof_ext4_inode offset of
        Inl e \<Rightarrow> Inl e
      | Inr buf \<Rightarrow> Inr \<lparr>inode_idx = idx, i_offset = offset, inode = parse_ext4_inode buf\<rparr>)"

text \<open>Python's \<^verbatim>\<open>xs[i]\<close> for an integer \<open>i\<close>: a negative index counts from the end.\<close>

definition py_index :: "'a list \<Rightarrow> int \<Rightarrow> error + 'a" where
  "py_index xs i =
     (let j = (if i < 0 then int (length xs) + i else i)
      in if 0 \<le> j \<and> j < int (length xs) then Inr (xs ! nat j) else Inl IndexError)"

definition Volume_get_inode_group :: "Volume \<Rightarrow> int \<Rightarrow> error + int \<times> int" where
  "Volume_get_inode_group vol idx =
     (if s_inodes_per_group (superblock vol) = 0 then Inl ZeroDivisionError
      else Inr ((idx - 1) div uint (s_inodes_per_group (superblock vol)),
                (idx - 1) mod uint (s_inodes_per_group (superblock vol))))"

definition Volume_get_inode :: "Volume \<Rightarrow> int \<Rightarrow> error + Inode" where
  "Volume_get_inode vol idx =
     (case Volume_get_inode_group vol idx of
        Inl e \<Rightarrow> Inl e
      | Inr (group_idx, inode_table_entry_idx) \<Rightarrow>
          (case py_index (group_descriptors vol) group_idx of
             Inl e \<Rightarrow> Inl e
           | Inr gd \<Rightarrow>
               (let inode_table_offset = bg_inode_table gd * block_size vol;
                    inode_offset = inode_table_offset
                       + inode_table_entry_idx * uint (s_inode_size (superblock vol))
                in Inode_init vol inode_offset (Some idx))))"

definition is_dir :: "Inode \<Rightarrow> bool" where
  "is_dir ino = ((i_mode (inode ino) AND S_IFDIR) \<noteq> 0)"

definition is_file :: "Inode \<Rightarrow> bool" where
  "is_file ino = ((i_mode (inode ino) AND S_IFREG) \<noteq> 0)"

text \<open>
  An exception whose message formats an inode index with \<^verbatim>\<open>{...:d}\<close>: when the index is
  \<^verbatim>\<open>None\<close>, building the message raises \<^verbatim>\<open>TypeError\<close> instead.
\<close>

definition format_d :: "int option \<Rightarrow> error \<Rightarrow> error" where
  "format_d idx e = (case idx of None \<Rightarrow> TypeError | Some i \<Rightarrow> e)"

text \<open>
  The extent tree traversal of \<^verbatim>\<open>open_read\<close>: the queue of node offsets and the mapping
  built so far. A tree whose index records lead back to a node never empties the queue,
  so the loop has an iteration bound.
\<close>

fun extent_walk ::
  "nat \<Rightarrow> Volume \<Rightarrow> Inode \<Rightarrow> int list \<Rightarrow> MappingEntry list \<Rightarrow> error + MappingEntry list" where
  "extent_walk fuel vol ino [] mapping = Inr mapping"
| "extent_walk 0 vol ino (header_offset # nodes) mapping = Inl OutOfFuel"
| "extent_walk (Suc fuel) vol ino (header_offset # nodes) mapping =
     (case Volume_read_struct vol sizeof_ext4_extent_header header_offset of
        Inl e \<Rightarrow> Inl e
      | Inr hbuf \<Rightarrow>
          (let header = parse_ext4_extent_header hbuf in
           if \<not> ignore_magic vol \<and> eh_magic header \<noteq> 0xF30A
           then Inl (format_d (inode_idx ino) MagicError)
           else if eh_depth header \<noteq> 0 then
             (case Volume_read_struct vol (sizeof_ext4_extent_idx * unat (eh_entries header))
                     (header_offset + int sizeof_ext4_extent_header) of
                Inl e \<Rightarrow> Inl e
              | Inr buf \<Rightarrow>
                  extent_walk fuel vol ino
                    (nodes @ map (\<lambda>idx. ei_leaf idx * block_size vol)
                       (parse_array parse_ext4_extent_idx sizeof_ext4_extent_idx
                          (unat (eh_entries header)) buf))
                    mapping)
           else
             (case Volume_read_struct vol (sizeof_ext4_extent * unat (eh_entries header))
                     (header_offset + int sizeof_ext4_extent_header) of
                Inl e \<Rightarrow> Inl e
              | Inr buf \<Rightarrow>
                  extent_walk fuel vol ino nodes
                    (mapping @ map (\<lambda>extent.
                         \<lparr>file_block_idx = uint (ee_block extent),
                          disk_block_idx = ee_start extent,
                          block_count = uint (ee_len extent)\<rparr>)
                       (parse_array parse_ext4_extent sizeof_ext4_extent
                          (unat (eh_entries header)) buf)))))"

text \<open>What \<^verbatim>\<open>open_read\<close> returns: a \<^verbatim>\<open>BlockReader\<close>, or an \<^verbatim>\<open>io.BytesIO\<close> over inline data.\<close>

datatype reader = Block BlockReader | Bytes "byte list"

text \<open>
  \<^verbatim>\<open>Inode.open_read\<close>. The entry objects of the extents branch are created by the call
  and reachable only through it, so they live in a store of their own: the values
  collected by the traversal, at the addresses \<open>0, 1, ...\<close> in the order of creation.
  \<^verbatim>\<open>len(self)\<close> raises \<^verbatim>\<open>OverflowError\<close> for a size that is no C index. The second test
  reads the attribute \<^verbatim>\<open>I_flags\<close>, as the source spells it.
\<close>

definition Inode_open_read :: "nat \<Rightarrow> Volume \<Rightarrow> Inode \<Rightarrow> error + reader" where
  "Inode_open_read fuel vol ino =
     (if (uint (i_flags (inode ino)) AND EXT4_EXTENTS_FL) \<noteq> 0 then
        (case extent_walk fuel vol ino [i_offset ino + i_block_offset] [] of
           Inl e \<Rightarrow> Inl e
         | Inr mapping \<Rightarrow>
             (case optimize mapping [0..<length mapping] of
                (st1, entries) \<Rightarrow>
                  if i_size (inode ino) > 2 ^ 63 - 1 then Inl OverflowError
                  else (case BlockReader_init st1 vol (i_size (inode ino)) entries of
                          Inl e \<Rightarrow> Inl e
                        | Inr (st2, r) \<Rightarrow> Inr (Block r))))
      else
        (case ext4_inode_getattr (inode ino) ''I_flags'' of
           Inl e \<Rightarrow> Inl e
         | Inr fl \<Rightarrow>
             if (fl AND EXT4_INLINE_DATA_FL) \<noteq> 0 then
               (case Volume_read vol (i_offset ino + i_block_offset) (i_size (inode ino)) of
                  Inl e \<Rightarrow> Inl e
                | Inr content \<Rightarrow> Inr (Bytes content))
             else Inl (Ext4Error UnknownStorage)))"

text \<open>\<^verbatim>\<open>.read()\<close> on what \<^verbatim>\<open>open_read\<close> returned: everything from the start.\<close>

definition reader_read_all :: "Volume \<Rightarrow> reader \<Rightarrow> error + byte list" where
  "reader_read_all vol rd =
     (case rd of Block r \<Rightarrow> fst (BlockReader_read vol r (-1)) | Bytes content \<Rightarrow> Inr content)"

text \<open>
  How a run of a generator ends: by returning (\<^verbatim>\<open>StopIteration\<close>) or by an exception
  (\<open>Raised OutOfFuel\<close>: the iteration bound of the model was reached).
\<close>

datatype gen_end = StopIteration | Raised error

text \<open>
  The loop of \<^verbatim>\<open>open_dir\<close> over the raw directory content: the tuples it yields, in order,
  and how it ends. A record with \<open>rec_len = 0\<close> keeps the loop at its offset for ever, so
  the loop has an iteration bound. The decoder is the caller's \<^verbatim>\<open>decode_name\<close> (the UTF-8
  decoder when the caller passes none); it may raise.
\<close>

fun open_dir_loop ::
  "nat \<Rightarrow> (byte list \<Rightarrow> error + 'n) \<Rightarrow> byte list \<Rightarrow> nat \<Rightarrow> ('n \<times> int \<times> int) list \<times> gen_end" where
  "open_dir_loop 0 decode_name raw_data offset =
     (if offset < length raw_data then ([], Raised OutOfFuel) else ([], StopIteration))"
| "open_dir_loop (Suc fuel) decode_name raw_data offset =
     (if offset < length raw_data then
        (if length raw_data \<le> offset + 7 then ([], Raised IndexError)
         else
           (let file_type = uint (raw_data ! (offset + 7));
                rec_len = (push_bit 8 (unat (raw_data ! (offset + 5)))) OR unat (raw_data ! (offset + 4))
            in if file_type \<noteq> IT_CHECKSUM then
                 (let inode = int (le_nat (take 4 (drop offset raw_data)));
                      name_len = unat (raw_data ! (offset + 6))
                  in case decode_name (take name_len (drop (offset + 8) raw_data)) of
                       Inl e \<Rightarrow> ([], Raised e)
                     | Inr name \<Rightarrow>
                         (case open_dir_loop fuel decode_name raw_data (offset + rec_len) of
                            (entries, ending) \<Rightarrow> ((name, inode, file_type) # entries, ending)))
               else open_dir_loop fuel decode_name raw_data (offset + rec_len)))
      else ([], StopIteration))"

declare open_dir_loop.simps [simp del]

text \<open>\<^verbatim>\<open>Inode.open_dir\<close>: the directory test, the whole content, then the loop.\<close>

definition Inode_open_dir ::
  "nat \<Rightarrow> Volume \<Rightarrow> Inode \<Rightarrow> (byte list \<Rightarrow> error + 'n) \<Rightarrow> ('n \<times> int \<times> int) list \<times> gen_end" where
  "Inode_open_dir fuel vol ino decode_name =
     (if \<not> ignore_flags vol \<and> \<not> is_dir ino
      then ([], Raised (format_d (inode_idx ino) (Ext4Error NotADirectory)))
      else (case Inode_open_read fuel vol ino of
              Inl e \<Rightarrow> ([], Raised e)
            | Inr rd \<Rightarrow>
                (case reader_read_all vol rd of
                   Inl e \<Rightarrow> ([], Raised e)
                 | Inr raw_data \<Rightarrow> open_dir_loop fuel decode_name raw_data 0)))"

text \<open>
  The loop of \<^verbatim>\<open>Inode.get_inode\<close> over the parts of the path. \<^verbatim>\<open>next(...)\<close> takes the
  first yielded entry with the part's name and runs the generator no further; without
  such an entry the generator's own end decides. The names are strings, so that joining
  them for a message does not fail. The directory test of the loop can only fail from
  the second part on, where its message has an index to format.
\<close>

fun get_inode_loop ::
  "nat \<Rightarrow> Volume \<Rightarrow> (byte list \<Rightarrow> error + 'n) \<Rightarrow> Inode \<Rightarrow> 'n list \<Rightarrow> error + Inode" where
  "get_inode_loop fuel vol decode_name current_inode [] = Inr current_inode"
| "get_inode_loop fuel vol decode_name current_inode (part # rest) =
     (if \<not> ignore_flags vol \<and> \<not> is_dir current_inode then Inl (Ext4Error NotADirectory)
      else
        (case Inode_open_dir fuel vol current_inode decode_name of
           (entries, ending) \<Rightarrow>
             (case find (\<lambda>(file_name, inode, file_type). file_name = part) entries of
                Some (file_name, idx, file_type) \<Rightarrow>
                  (case Volume_get_inode vol idx of
                     Inl e \<Rightarrow> Inl e
                   | Inr next_inode \<Rightarrow> get_inode_loop fuel vol decode_name next_inode rest)
              | None \<Rightarrow>
                  (case ending of
                     Raised e \<Rightarrow> Inl e
                   | StopIteration \<Rightarrow> Inl (format_d (inode_idx current_inode) FileNotFoundError)))))"

definition Inode_get_inode ::
  "nat \<Rightarrow> Volume \<Rightarrow> Inode \<Rightarrow> 'n list \<Rightarrow> (byte list \<Rightarrow> error + 'n) \<Rightarrow> error + Inode" where
  "Inode_get_inode fuel vol self relative_path decode_name =
     (if \<not> is_dir self then Inl (format_d (inode_idx self) (Ext4Error NotADirectory))
      else get_inode_loop fuel vol decode_name self relative_path)"

section \<open>Notions of the specification\<close>

text \<open>
  Coalescing as a scan over the values of a sorted mapping: the first entry takes over
  its successor as long as the successor starts at the disk block after the first
  entry's last one; then the scan goes on behind it.
\<close>

fun stitch :: "MappingEntry list \<Rightarrow> MappingEntry list" where
  "stitch (e1 # e2 # es) =
     (if disk_block_idx e1 + block_count e1 = disk_block_idx e2
      then stitch (e1\<lparr>block_count := block_count e1 + block_count e2\<rparr> # es)
      else e1 # stitch (e2 # es))"
| "stitch es = es"

text \<open>The values of a list of entry objects.\<close>

definition values_of :: "store \<Rightarrow> addr list \<Rightarrow> MappingEntry list" where
  "values_of st entries = map (\<lambda>a. st ! a) entries"

text \<open>
  The directory entry record (\<^verbatim>\<open>ext4_dir_entry_2\<close>) at an offset of the directory content:
  inode number at 0, record length at 4, name length at 6, file type at 7, name from 8.
\<close>

record dir_entry_2 =
  de_inode :: int
  de_rec_len :: nat
  de_name_len :: nat
  de_file_type :: int
  de_name :: "byte list"

definition dirent_at :: "byte list \<Rightarrow> nat \<Rightarrow> dir_entry_2" where
  "dirent_at raw off =
     \<lparr>de_inode = int (le_nat (field raw off 4)),
      de_rec_len = le_nat (field raw (off + 4) 2),
      de_name_len = unat (raw ! (off + 6)),
      de_file_type = uint (raw ! (off + 7)),
      de_name = field raw (off + 8) (unat (raw ! (off + 6)))\<rparr>"

text \<open>
  The records of a directory content in on-disk order from an offset on: each record
  has its 8 header bytes inside the content, the next one starts \<open>rec_len\<close> bytes after
  it, and the last one ends at or behind the end of the content.
\<close>

inductive dir_records :: "byte list \<Rightarrow> nat \<Rightarrow> dir_entry_2 list \<Rightarrow> bool" where
  dir_records_end: "length raw \<le> off \<Longrightarrow> dir_records raw off []"
| dir_records_next:
    "off + 8 \<le> length raw \<Longrightarrow>
     dir_records raw (off + de_rec_len (dirent_at raw off)) rs \<Longrightarrow>
     dir_records raw off (dirent_at raw off # rs)"

text \<open>Reading \<open>k\<close> bytes one at a time: \<open>k\<close> calls of \<^verbatim>\<open>read(1)\<close>, the results joined.\<close>

fun read_bytewise :: "nat \<Rightarrow> Volume \<Rightarrow> BlockReader \<Rightarrow> (error + byte list) \<times> BlockReader" where
  "read_bytewise 0 vol r = (Inr [], r)"
| "read_bytewise (Suc k) vol r =
     (case BlockReader_read vol r 1 of
        (Inl e, r1) \<Rightarrow> (Inl e, r1)
      | (Inr b, r1) \<Rightarrow>
          (case read_bytewise k vol r1 of
             (Inl e, r2) \<Rightarrow> (Inl e, r2)
           | (Inr bs, r2) \<Rightarrow> (Inr (b @ bs), r2)))"

section \<open>Properties\<close>

subsection \<open>Type predicates of an inode\<close>

lemma and_bit14: "((x::16 word) AND 0x4000 \<noteq> 0) = bit x 14"
  using and_exp_eq_0_iff_not_bit [of x 14] by simp

lemma and_bit15: "((x::16 word) AND 0x8000 \<noteq> 0) = bit x 15"
  using and_exp_eq_0_iff_not_bit [of x 15] by simp

lemma type_nibble_bit:
  fixes x :: "16 word"
  assumes "x AND 0xF000 = t"
  shows "bit x 14 = bit t 14" and "bit x 15 = bit t 15"
proof -
  have "bit (x AND 0xF000) 14 = bit t 14" "bit (x AND 0xF000) 15 = bit t 15"
    using assms by simp_all
  then show "bit x 14 = bit t 14" and "bit x 15 = bit t 15"
    by (simp_all add: bit_and_iff)
qed

text \<open>
  C9. \<open>is_dir\<close> tests bit 14 (0x4000) of the mode alone and \<open>is_file\<close> bit 15 (0x8000)
  alone. So \<open>is_dir\<close> holds for a mode whose type nibble is that of a block device
  (0x6000), and \<open>is_file\<close> holds for the type nibbles of a symbolic link (0xA000) and
  of a socket (0xC000), although these types differ from directory and regular file.
\<close>

theorem is_dir_is_file_single_bit:
  "is_dir ino = bit (i_mode (inode ino)) 14 \<and>
   is_file ino = bit (i_mode (inode ino)) 15 \<and>
   (i_mode (inode ino) AND 0xF000 = S_IFBLK \<longrightarrow> is_dir ino) \<and>
   (i_mode (inode ino) AND 0xF000 = S_IFLNK \<longrightarrow> is_file ino) \<and>
   (i_mode (inode ino) AND 0xF000 = S_IFSOCK \<longrightarrow> is_file ino) \<and>
   S_IFBLK \<noteq> S_IFDIR \<and> S_IFLNK \<noteq> S_IFREG \<and> S_IFSOCK \<noteq> S_IFREG"
proof -
  have d: "is_dir ino = bit (i_mode (inode ino)) 14"
    by (simp add: is_dir_def S_IFDIR_def and_bit14)
  have f: "is_file ino = bit (i_mode (inode ino)) 15"
    by (simp add: is_file_def S_IFREG_def and_bit15)
  have blk: "i_mode (inode ino) AND 0xF000 = S_IFBLK \<longrightarrow> is_dir ino"
    using type_nibble_bit(1) [of "i_mode (inode ino)" S_IFBLK] by (simp add: d S_IFBLK_def)
  have lnk: "i_mode (inode ino) AND 0xF000 = S_IFLNK \<longrightarrow> is_file ino"
    using type_nibble_bit(2) [of "i_mode (inode ino)" S_IFLNK] by (simp add: f S_IFLNK_def)
  have sock: "i_mode (inode ino) AND 0xF000 = S_IFSOCK \<longrightarrow> is_file ino"
    using type_nibble_bit(2) [of "i_mode (inode ino)" S_IFSOCK] by (simp add: f S_IFSOCK_def)
  have ne: "S_IFBLK \<noteq> S_IFDIR \<and> S_IFLNK \<noteq> S_IFREG \<and> S_IFSOCK \<noteq> S_IFREG"
    by (simp add: S_IFBLK_def S_IFDIR_def S_IFLNK_def S_IFREG_def S_IFSOCK_def)
  from d f blk lnk sock ne show ?thesis by blast
qed

text \<open>
  The modes \<^verbatim>\<open>brw-rw----\<close> (0x61B0), \<^verbatim>\<open>lrwxrwxrwx\<close> (0xA1FF) and \<^verbatim>\<open>srwxr-xr-x\<close> (0xC1ED).
\<close>

definition inode_with_mode :: "16 word \<Rightarrow> Inode" where
  "inode_with_mode m =
     \<lparr>inode_idx = Some 12, i_offset = 0x1000,
      inode = \<lparr>i_mode = m, i_size_lo = 0, i_flags = 0, i_size_hi = 0\<rparr>\<rparr>"

theorem is_dir_is_file_single_bit_witness:
  "i_mode (inode (inode_with_mode 0x61B0)) AND 0xF000 = S_IFBLK \<and> is_dir (inode_with_mode 0x61B0) \<and>
   i_mode (inode (inode_with_mode 0xA1FF)) AND 0xF000 = S_IFLNK \<and> is_file (inode_with_mode 0xA1FF) \<and>
   i_mode (inode (inode_with_mode 0xC1ED)) AND 0xF000 = S_IFSOCK \<and> is_file (inode_with_mode 0xC1ED)"
proof -
  have b: "i_mode (inode (inode_with_mode 0x61B0)) AND 0xF000 = S_IFBLK"
    by (simp add: inode_with_mode_def S_IFBLK_def)
  have l: "i_mode (inode (inode_with_mode 0xA1FF)) AND 0xF000 = S_IFLNK"
    by (simp add: inode_with_mode_def S_IFLNK_def)
  have s: "i_mode (inode (inode_with_mode 0xC1ED)) AND 0xF000 = S_IFSOCK"
    by (simp add: inode_with_mode_def S_IFSOCK_def)
  show ?thesis
    using b l s
      is_dir_is_file_single_bit [of "inode_with_mode 0x61B0"]
      is_dir_is_file_single_bit [of "inode_with_mode 0xA1FF"]
      is_dir_is_file_single_bit [of "inode_with_mode 0xC1ED"]
    by blast
qed

subsection \<open>Seeking\<close>

text \<open>
  C10. When \<open>seek\<close> raises the invalid-argument error (\<^verbatim>\<open>OSError(EINVAL)\<close>), for whatever
  mode, the cursor is what it was: \<open>tell\<close> on the reader after the failed call returns
  the same value as before it.
\<close>

theorem seek_error_keeps_cursor:
  "fst (BlockReader_seek r seek whence) = Inl (OSError EINVAL) \<Longrightarrow>
   BlockReader_tell (snd (BlockReader_seek r seek whence)) = BlockReader_tell r"
  by (simp add: BlockReader_seek_def Let_def split: if_splits)

theorem seek_error_keeps_cursor_witness:
  "fst (BlockReader_seek \<lparr>byte_size = 10, cursor = 5, block_map = []\<rparr> (-10) SEEK_CUR)
     = Inl (OSError EINVAL) \<and>
   BlockReader_tell (snd (BlockReader_seek \<lparr>byte_size = 10, cursor = 5, block_map = []\<rparr> (-10) SEEK_CUR))
     = BlockReader_tell \<lparr>byte_size = 10, cursor = 5, block_map = []\<rparr>"
proof -
  have h: "fst (BlockReader_seek \<lparr>byte_size = 10, cursor = 5, block_map = []\<rparr> (-10) SEEK_CUR)
             = Inl (OSError EINVAL)"
    by (simp add: BlockReader_seek_def SEEK_CUR_def)
  from h seek_error_keeps_cursor [OF h] show ?thesis by (rule conjI)
qed

subsection \<open>Opening an inode's content\<close>

lemma open_read_without_extents:
  "(uint (i_flags (inode ino)) AND EXT4_EXTENTS_FL) = 0 \<Longrightarrow>
   Inode_open_read fuel vol ino = Inl AttributeError"
  by (simp add: Inode_open_read_def ext4_inode_getattr_def ext4_struct_getattr_def
      ext4_inode_fields_def)

text \<open>
  C4. An inode of size 42 whose flags have INLINE_DATA (0x10000000) set and EXTENTS
  clear: \<open>open_read\<close> returns no stream but raises \<^verbatim>\<open>AttributeError\<close>, on any volume, because
  the test of the inline-data branch reads the attribute \<^verbatim>\<open>I_flags\<close>, which no inode
  record has.
\<close>

theorem open_read_inline_data_raises:
  "Inode_open_read fuel vol
     \<lparr>inode_idx = Some 12, i_offset = 0x1000,
      inode = \<lparr>i_mode = 0x81A4, i_size_lo = 42, i_flags = 0x10000000, i_size_hi = 0\<rparr>\<rparr>
   = Inl AttributeError"
  by (simp add: Inode_open_read_def EXT4_EXTENTS_FL_def ext4_inode_getattr_def
      ext4_struct_getattr_def ext4_inode_fields_def)

subsection \<open>Path resolution\<close>

text \<open>
  C7. On a volume with \<open>ignore_flags\<close> set, \<open>get_inode\<close> called on an inode that is a
  regular file (mode 0x81A4) raises the not-a-directory error, for every path: the test
  of the starting inode does not look at \<open>ignore_flags\<close>.
\<close>

theorem get_inode_ignore_flags_not_a_directory:
  "Inode_get_inode fuel (vol\<lparr>ignore_flags := True\<rparr>)
     \<lparr>inode_idx = Some 12, i_offset = 0x1000,
      inode = \<lparr>i_mode = 0x81A4, i_size_lo = 42, i_flags = 0x80000, i_size_hi = 0\<rparr>\<rparr>
     relative_path decode_name
   = Inl (Ext4Error NotADirectory)"
  by (simp add: Inode_get_inode_def is_dir_def S_IFDIR_def format_d_def)

subsection \<open>Example volumes\<close>

text \<open>A superblock for 1 KiB blocks, 8 inodes per group and 256-byte inode records.\<close>

definition superblock_1k :: ext4_superblock where
  "superblock_1k =
     \<lparr>s_inodes_count = 8, s_log_block_size = 0, s_inodes_per_group = 8,
      s_magic = 0xEF53, s_inode_size = 256, s_desc_size = 32\<rparr>"

definition volume_of :: "byte list \<Rightarrow> Volume" where
  "volume_of content =
     \<lparr>ignore_flags = False, ignore_magic = False, v_offset = 0, stream = content,
      superblock = superblock_1k,
      group_descriptors = [\<lparr>bg_inode_bitmap_lo = 4, bg_inode_table_lo = 5,
                             bg_inode_bitmap_hi = 0, bg_inode_table_hi = 0\<rparr>]\<rparr>"

lemma volume_of_block_size: "block_size (volume_of content) = 1024"
  by (simp add: block_size_def block_size_of_def volume_of_def superblock_1k_def push_bit_eq_mult)

lemma volume_of_superblock: "superblock (volume_of content) = superblock_1k"
  by (simp add: volume_of_def)

lemma volume_of_group_descriptors:
  "group_descriptors (volume_of content) =
     [\<lparr>bg_inode_bitmap_lo = 4, bg_inode_table_lo = 5, bg_inode_bitmap_hi = 0, bg_inode_table_hi = 0\<rparr>]"
  by (simp add: volume_of_def)

lemma volume_of_read:
  "0 \<le> off \<Longrightarrow> off < 2 ^ 63 \<Longrightarrow> 0 \<le> n \<Longrightarrow> n < 2 ^ 63 \<Longrightarrow>
   Volume_read (volume_of content) off n = Inr (take (nat n) (drop (nat off) content))"
  by (simp add: Volume_read_def stream_read_def fits_ssize_def volume_of_def)

lemma volume_of_read_negative:
  "0 \<le> off \<Longrightarrow> off < 2 ^ 63 \<Longrightarrow> - (2 ^ 63) \<le> n \<Longrightarrow> n < 0 \<Longrightarrow>
   Volume_read (volume_of content) off n = Inr (drop (nat off) content)"
  by (simp add: Volume_read_def stream_read_def fits_ssize_def volume_of_def)

lemma replicate5: "replicate 5 x = [x, x, x, x, x]"
  by (simp add: numeral_eq_Suc)

subsection \<open>Reading behind the end\<close>

lemma read_past_end_clamped:
  "byte_size r < cursor r \<Longrightarrow> 0 \<le> n \<Longrightarrow> BlockReader_read vol r n = (Inr [], r)"
  by (simp add: BlockReader_read_def)

lemma read_past_end_all_raises:
  "byte_size r < cursor r \<Longrightarrow> \<exists>e r'. BlockReader_read vol r (-1) = (Inl e, r')"
  by (auto simp add: BlockReader_read_def Let_def split: sum.splits)

text \<open>A file of 10 bytes in disk block 5 of a volume of six blocks.\<close>

definition small_file_entry :: MappingEntry where
  "small_file_entry = \<lparr>file_block_idx = 0, disk_block_idx = 5, block_count = 1\<rparr>"

definition small_file_reader :: BlockReader where
  "small_file_reader = \<lparr>byte_size = 10, cursor = 0, block_map = [small_file_entry]\<rparr>"

text \<open>
  C8. The reader of a 10-byte file, as its constructor builds it. \<open>seek(20, SET)\<close>
  succeeds and sets the cursor to 20. The following \<open>read(-1)\<close> does not return the
  empty byte string: the length is taken as \<open>byte_size - cursor = -10\<close> without
  clamping, the read of the volume with that length returns the 1004 bytes to the end
  of the stream, and the call raises the end-of-stream error, with the cursor at 1024.
\<close>

theorem read_all_past_end_raises:
  "BlockReader_init [small_file_entry] (volume_of (replicate 6144 0x41)) 10 [0]
     = Inr ([small_file_entry, small_file_entry], small_file_reader) \<and>
   BlockReader_seek small_file_reader 20 SEEK_SET = (Inr 20, small_file_reader\<lparr>cursor := 20\<rparr>) \<and>
   BlockReader_read (volume_of (replicate 6144 0x41)) (small_file_reader\<lparr>cursor := 20\<rparr>) (-1)
     = (Inl EndOfStreamError, small_file_reader\<lparr>cursor := 1024\<rparr>)"
proof -
  have i: "BlockReader_init [small_file_entry] (volume_of (replicate 6144 0x41)) 10 [0]
     = Inr ([small_file_entry, small_file_entry], small_file_reader)"
    by (simp add: BlockReader_init_def MappingEntry_copy_def new_entry_def volume_of_block_size
        optimize_def optimize_loop.simps small_file_reader_def small_file_entry_def)
  have s: "BlockReader_seek small_file_reader 20 SEEK_SET = (Inr 20, small_file_reader\<lparr>cursor := 20\<rparr>)"
    by (simp add: BlockReader_seek_def SEEK_SET_def SEEK_CUR_def SEEK_END_def)
  have r: "BlockReader_read (volume_of (replicate 6144 0x41)) (small_file_reader\<lparr>cursor := 20\<rparr>) (-1)
     = (Inl EndOfStreamError, small_file_reader\<lparr>cursor := 1024\<rparr>)"
    by (simp add: BlockReader_read_def read_blocks_def volume_of_block_size small_file_reader_def
        small_file_entry_def get_block_mapping_def volume_of_read_negative)
  from i s r show ?thesis by simp
qed

subsection \<open>Reading across extents\<close>

text \<open>
  A file of \<open>3 * 1024 + 17\<close> bytes in the disk blocks 100, 200, 300 and 301. Disk block
  100 is filled with 0xAA, its neighbour 101 with 0xBB, and disk block 200 with 0xCC.
\<close>

definition cross_extent_stream :: "byte list" where
  "cross_extent_stream =
     replicate (100 * 1024) 0 @ replicate 1024 0xAA @ replicate 1024 0xBB
     @ replicate (98 * 1024) 0 @ replicate 1024 0xCC @ replicate (101 * 1024) 0"

definition cross_extent_map :: "MappingEntry list" where
  "cross_extent_map =
     [\<lparr>file_block_idx = 0, disk_block_idx = 100, block_count = 1\<rparr>,
      \<lparr>file_block_idx = 1, disk_block_idx = 200, block_count = 1\<rparr>,
      \<lparr>file_block_idx = 2, disk_block_idx = 300, block_count = 2\<rparr>]"

definition cross_extent_reader :: BlockReader where
  "cross_extent_reader = \<lparr>byte_size = 3 * 1024 + 17, cursor = 0, block_map = cross_extent_map\<rparr>"

lemma read_bytewise_numeral:
  "read_bytewise (numeral k) vol r =
     (case BlockReader_read vol r 1 of
        (Inl e, r1) \<Rightarrow> (Inl e, r1)
      | (Inr b, r1) \<Rightarrow>
          (case read_bytewise (pred_numeral k) vol r1 of
             (Inl e, r2) \<Rightarrow> (Inl e, r2)
           | (Inr bs, r2) \<Rightarrow> (Inr (b @ bs), r2)))"
  by (simp add: numeral_eq_Suc)

lemma cross_extent_byte_block0:
  "0 \<le> c \<Longrightarrow> c < 1024 \<Longrightarrow>
   BlockReader_read (volume_of cross_extent_stream) (cross_extent_reader\<lparr>cursor := c\<rparr>) 1 =
     (Inr (take 1 (drop (nat (100 * 1024 + c)) cross_extent_stream)),
      cross_extent_reader\<lparr>cursor := c + 1\<rparr>)"
  by (simp add: BlockReader_read_def read_blocks_def volume_of_block_size cross_extent_reader_def
        cross_extent_map_def get_block_mapping_def volume_of_read)
     (simp add: cross_extent_stream_def)

lemma cross_extent_byte_block1:
  assumes "1024 \<le> c" and "c < 2048"
  shows "BlockReader_read (volume_of cross_extent_stream) (cross_extent_reader\<lparr>cursor := c\<rparr>) 1 =
     (Inr (take 1 (drop (nat (200 * 1024 + (c - 1024))) cross_extent_stream)),
      cross_extent_reader\<lparr>cursor := c + 1\<rparr>)"
proof -
  have d: "c div 1024 = 1" using assms by simp
  have m: "c mod 1024 = c - 1024" using assms d by (simp add: minus_mult_div_eq_mod [symmetric])
  show ?thesis using assms
    by (simp add: BlockReader_read_def read_blocks_def volume_of_block_size cross_extent_reader_def
          cross_extent_map_def get_block_mapping_def volume_of_read d m)
       (simp add: cross_extent_stream_def)
qed

text \<open>
  C3. The reader of that file, as its constructor builds it, after \<open>seek(1019)\<close>.
  \<open>read(10)\<close> crosses from file block 0 into file block 1, which are not neighbours on
  disk. It returns the last five bytes of disk block 100 followed by the first five
  bytes of disk block 101, which is no part of the file. Reading the same ten bytes one
  at a time returns the last five bytes of disk block 100 followed by the first five
  bytes of disk block 200. The two results differ.
\<close>

theorem cross_extent_read_differs_from_bytewise:
  "BlockReader_init cross_extent_map (volume_of cross_extent_stream) (3 * 1024 + 17) [0, 1, 2]
     = Inr (cross_extent_map @ cross_extent_map, cross_extent_reader) \<and>
   BlockReader_seek cross_extent_reader 1019 SEEK_SET
     = (Inr 1019, cross_extent_reader\<lparr>cursor := 1019\<rparr>) \<and>
   fst (BlockReader_read (volume_of cross_extent_stream) (cross_extent_reader\<lparr>cursor := 1019\<rparr>) 10)
     = Inr [0xAA, 0xAA, 0xAA, 0xAA, 0xAA, 0xBB, 0xBB, 0xBB, 0xBB, 0xBB] \<and>
   fst (read_bytewise 10 (volume_of cross_extent_stream) (cross_extent_reader\<lparr>cursor := 1019\<rparr>))
     = Inr [0xAA, 0xAA, 0xAA, 0xAA, 0xAA, 0xCC, 0xCC, 0xCC, 0xCC, 0xCC]"
proof -
  have i: "BlockReader_init cross_extent_map (volume_of cross_extent_stream) (3 * 1024 + 17) [0, 1, 2]
     = Inr (cross_extent_map @ cross_extent_map, cross_extent_reader)"
    by (simp add: BlockReader_init_def MappingEntry_copy_def new_entry_def volume_of_block_size
        optimize_def optimize_loop.simps cross_extent_reader_def cross_extent_map_def)
  have s: "BlockReader_seek cross_extent_reader 1019 SEEK_SET
     = (Inr 1019, cross_extent_reader\<lparr>cursor := 1019\<rparr>)"
    by (simp add: BlockReader_seek_def SEEK_SET_def SEEK_CUR_def SEEK_END_def)
  have r: "BlockReader_read (volume_of cross_extent_stream) (cross_extent_reader\<lparr>cursor := 1019\<rparr>) 10
     = (Inr (replicate 5 0xAA @ replicate 5 0xBB), cross_extent_reader\<lparr>cursor := 1029\<rparr>)"
    by (simp add: BlockReader_read_def read_blocks_def volume_of_block_size cross_extent_reader_def
          cross_extent_map_def get_range_mapping_def volume_of_read)
       (simp add: cross_extent_stream_def)
  have b: "read_bytewise 10 (volume_of cross_extent_stream) (cross_extent_reader\<lparr>cursor := 1019\<rparr>)
     = (Inr (replicate 5 0xAA @ replicate 5 0xCC), cross_extent_reader\<lparr>cursor := 1029\<rparr>)"
    by (simp add: read_bytewise_numeral cross_extent_byte_block0 cross_extent_byte_block1)
       (simp add: cross_extent_stream_def replicate5)
  from i s r b show ?thesis by (simp add: replicate5)
qed

subsection \<open>Looking up an inode by its index\<close>

lemma le_nat_zeros: "le_nat (replicate n 0) = 0"
  by (induction n) simp_all

lemma parse_ext4_inode_zeros:
  "parse_ext4_inode (replicate n 0) = \<lparr>i_mode = 0, i_size_lo = 0, i_flags = 0, i_size_hi = 0\<rparr>"
  by (simp add: parse_ext4_inode_def c_ushort_def c_uint_def field_def le_nat_zeros)

lemma Inode_init_zeros:
  "0 \<le> off \<Longrightarrow> off + 160 \<le> 8192 \<Longrightarrow>
   Inode_init (volume_of (replicate 8192 0)) off idx =
     Inr \<lparr>inode_idx = idx, i_offset = off,
          inode = \<lparr>i_mode = 0, i_size_lo = 0, i_flags = 0, i_size_hi = 0\<rparr>\<rparr>"
  by (simp add: Inode_init_def Volume_read_struct_def stream_read_struct_def stream_read_def
      fits_ssize_def volume_of_def sizeof_ext4_inode_def parse_ext4_inode_zeros)

lemma py_index_out_of_range:
  "int (length xs) \<le> i \<or> i < - int (length xs) \<Longrightarrow> py_index xs i = Inl IndexError"
  by (auto simp add: py_index_def Let_def)

lemma py_index_in_range:
  "0 \<le> i \<Longrightarrow> i < int (length xs) \<Longrightarrow> py_index xs i = Inr (xs ! nat i)"
  by (simp add: py_index_def)

text \<open>
  C6, as stated, fails. On a volume of one group with 8 inodes, \<open>get_inode(0)\<close> raises
  nothing: the group index is \<open>-1\<close>, which selects the last group descriptor, and the
  call returns the inode parsed at entry 7 of that group's table (offset
  \<open>5 * 1024 + 7 * 256\<close>).
\<close>

theorem get_inode_zero_counterexample:
  "(0::int) < 1 \<and>
   Volume_get_inode (volume_of (replicate 8192 0)) 0 =
     Inr \<lparr>inode_idx = Some 0, i_offset = 6912,
          inode = \<lparr>i_mode = 0, i_size_lo = 0, i_flags = 0, i_size_hi = 0\<rparr>\<rparr>"
  by (simp add: Volume_get_inode_def Volume_get_inode_group_def py_index_def volume_of_block_size
      Inode_init_zeros volume_of_superblock volume_of_group_descriptors superblock_1k_def
      bg_inode_table_def lo_hi_def)

text \<open>
  C6, amended. On a volume whose superblock has a non-zero \<open>inodes_per_group\<close> (the
  constructor admits no other), let \<open>group = (index - 1) div inodes_per_group\<close>.
  \<open>get_inode(index)\<close> raises the out-of-range error (\<^verbatim>\<open>IndexError\<close>) if
  \<open>group \<ge> group_count\<close> or \<open>group < - group_count\<close>. For \<open>index \<ge> 1\<close> with
  \<open>group < group_count\<close> it is the parse of the inode record at
  \<open>inode_table_base + ((index - 1) mod inodes_per_group) * inode_size\<close> of that group,
  where \<open>inode_table_base\<close> is the group's \<open>bg_inode_table\<close> times the block size.
\<close>

theorem get_inode_group_range:
  assumes "s_inodes_per_group (superblock vol) \<noteq> 0"
  shows
   "(int (length (group_descriptors vol)) \<le> (idx - 1) div uint (s_inodes_per_group (superblock vol)) \<or>
     (idx - 1) div uint (s_inodes_per_group (superblock vol)) < - int (length (group_descriptors vol))
       \<longrightarrow> Volume_get_inode vol idx = Inl IndexError) \<and>
    (1 \<le> idx \<and> (idx - 1) div uint (s_inodes_per_group (superblock vol)) < int (length (group_descriptors vol))
       \<longrightarrow> Volume_get_inode vol idx =
            Inode_init vol
              (bg_inode_table (group_descriptors vol ! nat ((idx - 1) div uint (s_inodes_per_group (superblock vol))))
                  * block_size vol
               + ((idx - 1) mod uint (s_inodes_per_group (superblock vol))) * uint (s_inode_size (superblock vol)))
              (Some idx))"
proof (intro conjI impI)
  assume "int (length (group_descriptors vol)) \<le> (idx - 1) div uint (s_inodes_per_group (superblock vol)) \<or>
     (idx - 1) div uint (s_inodes_per_group (superblock vol)) < - int (length (group_descriptors vol))"
  then show "Volume_get_inode vol idx = Inl IndexError"
    using assms by (simp add: Volume_get_inode_def Volume_get_inode_group_def py_index_out_of_range)
next
  assume a: "1 \<le> idx \<and> (idx - 1) div uint (s_inodes_per_group (superblock vol)) < int (length (group_descriptors vol))"
  have "0 \<le> (idx - 1) div uint (s_inodes_per_group (superblock vol))"
    using a by (simp add: div_int_pos_iff)
  then show "Volume_get_inode vol idx =
            Inode_init vol
              (bg_inode_table (group_descriptors vol ! nat ((idx - 1) div uint (s_inodes_per_group (superblock vol))))
                  * block_size vol
               + ((idx - 1) mod uint (s_inodes_per_group (superblock vol))) * uint (s_inode_size (superblock vol)))
              (Some idx)"
    using assms a by (simp add: Volume_get_inode_def Volume_get_inode_group_def py_index_in_range)
qed

text \<open>On the volume of one group: index 9 lies in group 1, index 2 is entry 1 of group 0.\<close>

theorem get_inode_group_range_witness:
  "s_inodes_per_group (superblock (volume_of (replicate 8192 0))) \<noteq> 0 \<and>
   int (length (group_descriptors (volume_of (replicate 8192 0))))
     \<le> (9 - 1) div uint (s_inodes_per_group (superblock (volume_of (replicate 8192 0)))) \<and>
   Volume_get_inode (volume_of (replicate 8192 0)) 9 = Inl IndexError \<and>
   (1::int) \<le> 2 \<and>
   (2 - 1) div uint (s_inodes_per_group (superblock (volume_of (replicate 8192 0))))
     < int (length (group_descriptors (volume_of (replicate 8192 0)))) \<and>
   Volume_get_inode (volume_of (replicate 8192 0)) 2 =
     Inr \<lparr>inode_idx = Some 2, i_offset = 5376,
          inode = \<lparr>i_mode = 0, i_size_lo = 0, i_flags = 0, i_size_hi = 0\<rparr>\<rparr>"
proof -
  let ?vol = "volume_of (replicate 8192 0)"
  have h: "s_inodes_per_group (superblock ?vol) \<noteq> 0"
    by (simp add: volume_of_superblock superblock_1k_def)
  have g9: "int (length (group_descriptors ?vol)) \<le> (9 - 1) div uint (s_inodes_per_group (superblock ?vol))"
    by (simp add: volume_of_superblock volume_of_group_descriptors superblock_1k_def)
  have g2: "(2 - 1) div uint (s_inodes_per_group (superblock ?vol)) < int (length (group_descriptors ?vol))"
    by (simp add: volume_of_superblock volume_of_group_descriptors superblock_1k_def)
  have o2: "bg_inode_table (group_descriptors ?vol ! nat ((2 - 1) div uint (s_inodes_per_group (superblock ?vol))))
                * block_size ?vol
             + ((2 - 1) mod uint (s_inodes_per_group (superblock ?vol))) * uint (s_inode_size (superblock ?vol))
            = 5376"
    by (simp add: volume_of_block_size volume_of_superblock volume_of_group_descriptors
        superblock_1k_def bg_inode_table_def lo_hi_def)
  from get_inode_group_range [OF h, of 9] g9
  have e9: "Volume_get_inode ?vol 9 = Inl IndexError" by blast
  from get_inode_group_range [OF h, of 2] g2 o2
  have e2: "Volume_get_inode ?vol 2 = Inode_init ?vol 5376 (Some 2)" by simp
  show ?thesis using h g9 g2 e9 e2 by (simp add: Inode_init_zeros)
qed

subsection \<open>Optimizing a mapping\<close>

lemma values_of_length: "length (values_of st es) = length es"
  by (simp add: values_of_def)

lemma values_of_nth: "i < length es \<Longrightarrow> values_of st es ! i = st ! (es ! i)"
  by (simp add: values_of_def)

lemma distinct_nth_not_in_rest:
  assumes "distinct es" and "i < length es"
  shows "es ! i \<notin> set (take i es)" and "es ! i \<notin> set (drop (Suc i) es)"
proof -
  have "distinct (take i es @ es ! i # drop (Suc i) es)"
    using assms id_take_nth_drop [of i es] by simp
  then show "es ! i \<notin> set (take i es)" and "es ! i \<notin> set (drop (Suc i) es)"
    by auto
qed

lemma values_of_update_other:
  "a \<notin> set es \<Longrightarrow> values_of (st[a := v]) es = values_of st es"
  by (induction es) (auto simp add: values_of_def)

lemma stitch_step_merge:
  assumes "Suc i < length vs"
    and "disk_block_idx (vs ! i) + block_count (vs ! i) = disk_block_idx (vs ! Suc i)"
  shows "stitch (drop i vs)
         = stitch ((vs ! i)\<lparr>block_count := block_count (vs ! i) + block_count (vs ! Suc i)\<rparr> # drop (Suc (Suc i)) vs)"
proof -
  have "drop i vs = vs ! i # vs ! Suc i # drop (Suc (Suc i)) vs"
    using assms(1) by (simp add: Cons_nth_drop_Suc Suc_lessD)
  then show ?thesis using assms(2) by simp
qed

lemma stitch_step_keep:
  assumes "i < length vs"
    and "\<not> (Suc i < length vs \<and>
            disk_block_idx (vs ! i) + block_count (vs ! i) = disk_block_idx (vs ! Suc i))"
  shows "stitch (drop i vs) = vs ! i # stitch (drop (Suc i) vs)"
proof (cases "Suc i < length vs")
  case True
  then have "drop i vs = vs ! i # vs ! Suc i # drop (Suc (Suc i)) vs"
    by (simp add: Cons_nth_drop_Suc Suc_lessD)
  moreover have "drop (Suc i) vs = vs ! Suc i # drop (Suc (Suc i)) vs"
    using True by (simp add: Cons_nth_drop_Suc)
  ultimately show ?thesis using assms(2) True by simp
next
  case False
  then have "drop i vs = [vs ! i]" "drop (Suc i) vs = []"
    using assms(1) by (simp_all add: Cons_nth_drop_Suc [symmetric])
  then show ?thesis by simp
qed

lemma optimize_loop_stitch:
  "distinct es \<Longrightarrow> \<forall>a\<in>set es. a < length st \<Longrightarrow> optimize_loop st es idx = (st', es') \<Longrightarrow>
   values_of st' es' = take idx (values_of st es) @ stitch (drop idx (values_of st es))
   \<and> length st' = length st \<and> (\<forall>a. a \<notin> set es \<longrightarrow> st' ! a = st ! a)"
proof (induction st es idx arbitrary: st' es' rule: optimize_loop.induct)
  case (1 st es idx)
  let ?vs = "values_of st es"
  show ?case
  proof (cases "idx < length es")
    case False
    then have "optimize_loop st es idx = (st, es)" by (simp add: optimize_loop.simps)
    with "1.prems"(3) have "st' = st" "es' = es" by simp_all
    with False show ?thesis by (simp add: values_of_length)
  next
    case True
    show ?thesis
    proof (cases "idx + 1 < length es \<and>
            disk_block_idx (st ! (es ! idx)) + block_count (st ! (es ! idx))
              = disk_block_idx (st ! (es ! (idx + 1)))")
      case merge: True
      let ?a = "es ! idx" and ?b = "es ! Suc idx"
      let ?es1 = "take (Suc idx) es @ drop (Suc (Suc idx)) es"
      let ?m = "(st ! ?a)\<lparr>block_count := block_count (st ! ?a) + block_count (st ! ?b)\<rparr>"
      let ?st1 = "st[?a := ?m]"
      have es1_idx: "?es1 ! idx = ?a" using True by (simp add: nth_append)
      have unfold: "optimize_loop st es idx = optimize_loop ?st1 ?es1 idx"
        using True merge es1_idx by (subst optimize_loop.simps) (simp add: Let_def)
      have es1_alt: "?es1 = take idx es @ ?a # drop (Suc (Suc idx)) es"
        using True by (simp add: take_Suc_conv_app_nth)
      have a_valid: "?a < length st" using True "1.prems"(2) by simp
      have sub: "set ?es1 \<subseteq> set es"
        using set_take_subset [of "Suc idx" es] set_drop_subset [of "Suc (Suc idx)" es] by auto
      have a_front: "?a \<notin> set (take idx es)" and a_back: "?a \<notin> set (drop (Suc (Suc idx)) es)"
        using distinct_nth_not_in_rest [OF "1.prems"(1) True]
          set_drop_subset_set_drop [of "Suc idx" "Suc (Suc idx)" es]
        by auto
      have d1: "distinct ?es1"
      proof -
        have "distinct (take (Suc idx) es @ drop (Suc idx) es)" using "1.prems"(1) by simp
        then have "distinct (take (Suc idx) es)" "distinct (drop (Suc idx) es)"
          "set (take (Suc idx) es) \<inter> set (drop (Suc idx) es) = {}"
          by (simp_all only: distinct_append) 
        moreover have "distinct (drop (Suc (Suc idx)) es)" using "1.prems"(1) by simp
        moreover have "set (drop (Suc (Suc idx)) es) \<subseteq> set (drop (Suc idx) es)"
          by (rule set_drop_subset_set_drop) simp
        ultimately show ?thesis by (simp only: distinct_append) blast
      qed
      have v1: "\<forall>a\<in>set ?es1. a < length ?st1" using sub "1.prems"(2) by auto
      have vals1: "values_of ?st1 ?es1 = take idx ?vs @ ?m # drop (Suc (Suc idx)) ?vs"
      proof -
        have "values_of ?st1 ?es1
              = values_of ?st1 (take idx es) @ ?st1 ! ?a # values_of ?st1 (drop (Suc (Suc idx)) es)"
          by (subst es1_alt) (simp add: values_of_def)
        also have "\<dots> = values_of st (take idx es) @ ?m # values_of st (drop (Suc (Suc idx)) es)"
          using a_front a_back a_valid by (simp add: values_of_update_other)
        also have "\<dots> = take idx ?vs @ ?m # drop (Suc (Suc idx)) ?vs"
          by (simp add: values_of_def take_map drop_map)
        finally show ?thesis .
      qed
      have e1: "take (idx + 1) es @ drop (idx + 2) es = ?es1" by simp
      have e2: "es ! (idx + 1) = ?b" by simp
      note IH = "1.IH"(1) [OF True merge refl refl refl refl, unfolded e1 e2 es1_idx]
      have run: "optimize_loop ?st1 ?es1 idx = (st', es')"
        using "1.prems"(3) unfold by simp
      have ih: "values_of st' es' = take idx (values_of ?st1 ?es1) @ stitch (drop idx (values_of ?st1 ?es1))
          \<and> length st' = length ?st1 \<and> (\<forall>a. a \<notin> set ?es1 \<longrightarrow> st' ! a = ?st1 ! a)"
        using d1 v1 run by (rule IH)
      have len: "idx < length ?vs" using True by (simp add: values_of_length)
      have t: "take idx (values_of ?st1 ?es1) = take idx ?vs"
        using len by (simp add: vals1)
      have d: "drop idx (values_of ?st1 ?es1) = ?m # drop (Suc (Suc idx)) ?vs"
        using len by (simp add: vals1)
      have s: "stitch (drop idx ?vs) = stitch (?m # drop (Suc (Suc idx)) ?vs)"
        using stitch_step_merge [of idx ?vs] merge True by (simp add: values_of_length values_of_nth)
      have frame: "\<forall>x. x \<notin> set es \<longrightarrow> st' ! x = st ! x"
      proof (intro allI impI)
        fix x assume x: "x \<notin> set es"
        then have "x \<notin> set ?es1" using sub by auto
        moreover have "x \<noteq> ?a" using x True by auto
        ultimately show "st' ! x = st ! x" using ih by simp
      qed
      from ih t d s frame show ?thesis by simp
    next
      case keep: False
      have unfold: "optimize_loop st es idx = optimize_loop st es (idx + 1)"
        by (subst optimize_loop.simps) (simp only: True keep if_True if_False)
      from "1.IH"(2) [OF True keep "1.prems"(1) "1.prems"(2)] "1.prems"(3) unfold
      have ih: "values_of st' es' = take (idx + 1) ?vs @ stitch (drop (idx + 1) ?vs)
          \<and> length st' = length st \<and> (\<forall>a. a \<notin> set es \<longrightarrow> st' ! a = st ! a)"
        by simp
      have len: "idx < length ?vs" using True by (simp add: values_of_length)
      have "stitch (drop idx ?vs) = ?vs ! idx # stitch (drop (Suc idx) ?vs)"
        using stitch_step_keep [of idx ?vs] keep True
        by (simp add: values_of_length values_of_nth)
      moreover have "take (idx + 1) ?vs = take idx ?vs @ [?vs ! idx]"
        using len by (simp add: take_Suc_conv_app_nth)
      ultimately show ?thesis using ih by simp
    qed
  qed
qed


lemma insort_key_map:
  "map f (insort_key (\<lambda>x. g (f x)) x xs) = insort_key g (f x) (map f xs)"
  by (induction xs) simp_all

lemma sort_key_map:
  "map f (sort_key (\<lambda>x. g (f x)) xs) = sort_key g (map f xs)"
  by (induction xs) (simp_all add: insort_key_map)

lemma values_of_sort:
  "values_of st (sort_key (\<lambda>a. file_block_idx (st ! a)) es)
   = sort_key file_block_idx (values_of st es)"
  unfolding values_of_def by (rule sort_key_map)

lemma optimize_stitch:
  assumes "distinct es" and "\<forall>a\<in>set es. a < length st" and "optimize st es = (st', es')"
  shows "values_of st' es' = stitch (sort_key file_block_idx (values_of st es))"
    and "length st' = length st"
    and "\<forall>a. a \<notin> set es \<longrightarrow> st' ! a = st ! a"
proof -
  let ?s = "sort_key (\<lambda>a. file_block_idx (st ! a)) es"
  have d: "distinct ?s" using assms(1) by simp
  have v: "\<forall>a\<in>set ?s. a < length st" using assms(2) by simp
  have run: "optimize_loop st ?s 0 = (st', es')" using assms(3) by (simp add: optimize_def)
  from optimize_loop_stitch [OF d v run]
  show "values_of st' es' = stitch (sort_key file_block_idx (values_of st es))"
    and "length st' = length st"
    and "\<forall>a. a \<notin> set es \<longrightarrow> st' ! a = st ! a"
    by (simp_all add: values_of_sort)
qed





lemma stitch_pair:
  "stitch [a, b] =
     (if disk_block_idx a + block_count a = disk_block_idx b
      then [a\<lparr>block_count := block_count a + block_count b\<rparr>] else [a, b])"
  by simp

text \<open>
  C2, as stated, fails. Two entries that are neighbours on disk (\<open>100 + 1 = 101\<close>)
  but whose logical ranges do not abut (\<open>0 + 1 \<noteq> 5\<close>) are merged into one entry of
  two blocks.
\<close>

theorem optimize_merges_without_abutment_counterexample:
  "disk_block_idx \<lparr>file_block_idx = 0, disk_block_idx = 100, block_count = 1\<rparr>
     + block_count \<lparr>file_block_idx = 0, disk_block_idx = 100, block_count = 1\<rparr>
     = disk_block_idx \<lparr>file_block_idx = 5, disk_block_idx = 101, block_count = 1\<rparr> \<and>
   file_block_idx \<lparr>file_block_idx = 0, disk_block_idx = 100, block_count = 1\<rparr>
     + block_count \<lparr>file_block_idx = 0, disk_block_idx = 100, block_count = 1\<rparr>
     \<noteq> file_block_idx \<lparr>file_block_idx = 5, disk_block_idx = 101, block_count = 1\<rparr> \<and>
   optimize [\<lparr>file_block_idx = 0, disk_block_idx = 100, block_count = 1\<rparr>,
             \<lparr>file_block_idx = 5, disk_block_idx = 101, block_count = 1\<rparr>] [0, 1]
     = ([\<lparr>file_block_idx = 0, disk_block_idx = 100, block_count = 2\<rparr>,
         \<lparr>file_block_idx = 5, disk_block_idx = 101, block_count = 1\<rparr>], [0])"
  by (simp add: optimize_def optimize_loop.simps)

text \<open>
  C2, amended. Applied to a list of distinct entry objects, \<open>optimize\<close> sorts them by
  \<open>file_block_idx\<close> (stably) and then scans the sorted list from the left: the current
  entry takes over its successor exactly when
  \<open>entries[i].disk_block_idx + entries[i].block_count = entries[i+1].disk_block_idx\<close>;
  whether the logical ranges abut is not looked at. The values of the list after the
  call are \<open>stitch\<close> of the sorted values before it.
\<close>

theorem optimize_merges_on_disk_adjacency:
  assumes "distinct entries" and "\<forall>a\<in>set entries. a < length st"
  shows "values_of (fst (optimize st entries)) (snd (optimize st entries))
         = stitch (sort_key file_block_idx (values_of st entries))"
  using optimize_stitch(1) [OF assms, of "fst (optimize st entries)" "snd (optimize st entries)"]
  by simp

text \<open>
  Three entries out of order: the sorted list is \<open>(0, 100, 1), (5, 101, 1), (6, 300, 1)\<close>;
  the first two are merged, the third stays.
\<close>

definition unsorted_store :: store where
  "unsorted_store =
     [\<lparr>file_block_idx = 5, disk_block_idx = 101, block_count = 1\<rparr>,
      \<lparr>file_block_idx = 0, disk_block_idx = 100, block_count = 1\<rparr>,
      \<lparr>file_block_idx = 6, disk_block_idx = 300, block_count = 1\<rparr>]"

theorem optimize_merges_on_disk_adjacency_witness:
  "distinct [0, 1, 2 :: nat] \<and> set [0, 1, 2] \<subseteq> {..<length unsorted_store} \<and>
   values_of (fst (optimize unsorted_store [0, 1, 2])) (snd (optimize unsorted_store [0, 1, 2]))
     = [\<lparr>file_block_idx = 0, disk_block_idx = 100, block_count = 2\<rparr>,
        \<lparr>file_block_idx = 6, disk_block_idx = 300, block_count = 1\<rparr>]"
proof -
  have d: "distinct [0, 1, 2 :: nat]" by simp
  have v: "\<forall>a\<in>set [0, 1, 2]. a < length unsorted_store" by (simp add: unsorted_store_def)
  have s: "stitch (sort_key file_block_idx (values_of unsorted_store [0, 1, 2]))
     = [\<lparr>file_block_idx = 0, disk_block_idx = 100, block_count = 2\<rparr>,
        \<lparr>file_block_idx = 6, disk_block_idx = 300, block_count = 1\<rparr>]"
    by (simp add: values_of_def unsorted_store_def)
  from optimize_merges_on_disk_adjacency [OF d v] s d v show ?thesis by auto
qed

subsection \<open>Constructing a reader\<close>










subsection \<open>Iterating a directory\<close>

lemma or_push_bit_8:
  fixes x y :: nat
  assumes "y < 256"
  shows "(push_bit 8 x) OR y = y + 256 * x"
proof -
  have "\<not> bit (push_bit 8 x) n \<or> \<not> bit y n" for n
  proof (cases "n < 8")
    case True
    then show ?thesis by (simp add: bit_push_bit_iff)
  next
    case False
    then have "(2::nat) ^ 8 \<le> 2 ^ n" by (intro power_increasing) simp_all
    with assms have "y < 2 ^ n" by simp
    then have "\<not> bit y n" by (simp add: bit_iff_odd)
    then show ?thesis by simp
  qed
  then have "push_bit 8 x + y = (push_bit 8 x) OR y" by (rule disjunctive_add)
  then show ?thesis by (simp add: push_bit_eq_mult)
qed

lemma field_two:
  "off + 2 \<le> length raw \<Longrightarrow> field raw off 2 = [raw ! off, raw ! (off + 1)]"
proof -
  assume a: "off + 2 \<le> length raw"
  have "drop off raw = raw ! off # raw ! Suc off # drop (Suc (Suc off)) raw"
    using a by (simp add: Cons_nth_drop_Suc)
  then show ?thesis by (simp add: field_def numeral_2_eq_2)
qed

lemma rec_len_eq:
  assumes "off + 8 \<le> length raw"
  shows "(push_bit 8 (unat (raw ! (off + 5)))) OR unat (raw ! (off + 4))
         = de_rec_len (dirent_at raw off)"
proof -
  have "unat (raw ! (off + 4)) < 256" using unsigned_less [of "raw ! (off + 4)"] by simp
  moreover have "off + 4 + 1 = off + 5" by simp
  then have "field raw (off + 4) 2 = [raw ! (off + 4), raw ! (off + 5)]"
    using field_two [of "off + 4" raw] assms by (simp only:)
  ultimately show ?thesis by (simp add: dirent_at_def or_push_bit_8)
qed

lemma open_dir_loop_end:
  "length raw \<le> off \<Longrightarrow> open_dir_loop fuel decode_name raw off = ([], StopIteration)"
  by (cases fuel) (simp_all add: open_dir_loop.simps)

lemma open_dir_loop_step:
  assumes "off + 8 \<le> length raw"
  shows "open_dir_loop (Suc fuel) decode_name raw off =
     (let r = dirent_at raw off in
      if de_file_type r \<noteq> IT_CHECKSUM then
        (case decode_name (de_name r) of
           Inl e \<Rightarrow> ([], Raised e)
         | Inr name \<Rightarrow>
             (case open_dir_loop fuel decode_name raw (off + de_rec_len r) of
                (entries, ending) \<Rightarrow> ((name, de_inode r, de_file_type r) # entries, ending)))
      else open_dir_loop fuel decode_name raw (off + de_rec_len r))"
proof -
  have a: "off < length raw" "\<not> length raw \<le> off + 7" using assms by simp_all
  show ?thesis
    using a by (simp add: open_dir_loop.simps rec_len_eq [OF assms] Let_def dirent_at_def field_def
        cong: sum.case_cong prod.case_cong)
qed

lemma open_dir_loop_records:
  assumes "dir_records raw off rs"
    and "\<forall>r\<in>set rs. de_file_type r \<noteq> IT_CHECKSUM \<longrightarrow> decode_name (de_name r) = Inr (name_of r)"
    and "length rs \<le> fuel"
  shows "open_dir_loop fuel decode_name raw off =
     (map (\<lambda>r. (name_of r, de_inode r, de_file_type r))
        (filter (\<lambda>r. de_file_type r \<noteq> IT_CHECKSUM) rs), StopIteration)"
  using assms
proof (induction arbitrary: fuel rule: dir_records.induct)
  case (dir_records_end raw off)
  then show ?case by (simp add: open_dir_loop_end)
next
  case (dir_records_next off raw rs)
  from dir_records_next.prems(2) obtain k where k: "fuel = Suc k" "length rs \<le> k"
    by (cases fuel) simp_all
  have ih: "open_dir_loop k decode_name raw (off + de_rec_len (dirent_at raw off)) =
     (map (\<lambda>r. (name_of r, de_inode r, de_file_type r))
        (filter (\<lambda>r. de_file_type r \<noteq> IT_CHECKSUM) rs), StopIteration)"
    using dir_records_next.IH [of k] dir_records_next.prems(1) k(2) by simp
  show ?case
    using dir_records_next.prems(1) dir_records_next.hyps(1)
    by (simp add: k(1) open_dir_loop_step ih Let_def)
qed

lemma open_dir_loop_no_checksum_aux:
  "open_dir_loop fuel decode_name raw off = (entries, ending) \<Longrightarrow>
   \<forall>entry\<in>set entries. snd (snd entry) \<noteq> IT_CHECKSUM"
proof (induction fuel arbitrary: off entries ending)
  case 0
  then show ?case by (simp add: open_dir_loop.simps split: if_splits)
next
  case (Suc fuel)
  show ?case
  proof (cases "off + 8 \<le> length raw")
    case False
    then have "open_dir_loop (Suc fuel) decode_name raw off = ([], StopIteration)
             \<or> open_dir_loop (Suc fuel) decode_name raw off = ([], Raised IndexError)"
      by (simp add: open_dir_loop.simps)
    with Suc.prems show ?thesis by auto
  next
    case True
    let ?r = "dirent_at raw off"
    show ?thesis
    proof (cases "de_file_type ?r \<noteq> IT_CHECKSUM")
      case skip: False
      then have "open_dir_loop fuel decode_name raw (off + de_rec_len ?r) = (entries, ending)"
        using Suc.prems by (simp add: open_dir_loop_step [OF True] Let_def)
      then show ?thesis by (rule Suc.IH)
    next
      case yield: True
      show ?thesis
      proof (cases "decode_name (de_name ?r)")
        case (Inl e)
        then have "entries = []" using Suc.prems yield by (simp add: open_dir_loop_step [OF True] Let_def)
        then show ?thesis by simp
      next
        case (Inr name)
        obtain es en where rest: "open_dir_loop fuel decode_name raw (off + de_rec_len ?r) = (es, en)"
          by (cases "open_dir_loop fuel decode_name raw (off + de_rec_len ?r)")
        then have "entries = (name, de_inode ?r, de_file_type ?r) # es"
          using Suc.prems yield Inr by (simp add: open_dir_loop_step [OF True] Let_def)
        with Suc.IH [OF rest] yield show ?thesis by simp
      qed
    qed
  qed
qed

lemma open_dir_loop_no_checksum:
  "entry \<in> set (fst (open_dir_loop fuel decode_name raw off)) \<Longrightarrow> snd (snd entry) \<noteq> IT_CHECKSUM"
  using open_dir_loop_no_checksum_aux [of fuel decode_name raw off
      "fst (open_dir_loop fuel decode_name raw off)" "snd (open_dir_loop fuel decode_name raw off)"]
  by simp

lemma Inode_open_dir_no_checksum:
  "entry \<in> set (fst (Inode_open_dir fuel vol ino decode_name)) \<Longrightarrow> snd (snd entry) \<noteq> IT_CHECKSUM"
  by (auto simp add: Inode_open_dir_def open_dir_loop_no_checksum split: if_splits sum.splits)

text \<open>
  C1, amended. For every inode, volume and name decoder, no tuple that \<open>open_dir\<close>
  yields has the file type 0xDE. When the directory test passes and the inode's content
  is read as \<open>raw\<close>, when \<open>rs\<close> are the records of \<open>raw\<close> in on-disk order from offset 0,
  each \<open>rec_len\<close> bytes after its predecessor, and when the decoder returns a name for
  every record that is no checksum record, then \<open>open_dir\<close> yields exactly the tuples
  (decoded name, inode number, file type) of the records whose file type is not 0xDE, in
  the order of the records, and then stops; a record whose inode number is 0 is yielded
  like any other. The iteration bound has to cover the number of records.
\<close>

theorem open_dir_yields_records:
  "(\<forall>entry\<in>set (fst (Inode_open_dir fuel vol ino decode_name)). snd (snd entry) \<noteq> IT_CHECKSUM) \<and>
   ((ignore_flags vol \<or> is_dir ino) \<and>
    Inode_open_read fuel vol ino = Inr rd \<and> reader_read_all vol rd = Inr raw \<and>
    dir_records raw 0 rs \<and>
    (\<forall>r\<in>set rs. de_file_type r \<noteq> IT_CHECKSUM \<longrightarrow> decode_name (de_name r) = Inr (name_of r)) \<and>
    length rs \<le> fuel
    \<longrightarrow> Inode_open_dir fuel vol ino decode_name =
          (map (\<lambda>r. (name_of r, de_inode r, de_file_type r))
             (filter (\<lambda>r. de_file_type r \<noteq> IT_CHECKSUM) rs), StopIteration))"
proof (intro conjI ballI impI)
  fix entry
  assume "entry \<in> set (fst (Inode_open_dir fuel vol ino decode_name))"
  then show "snd (snd entry) \<noteq> IT_CHECKSUM" by (rule Inode_open_dir_no_checksum)
next
  assume a: "(ignore_flags vol \<or> is_dir ino) \<and>
    Inode_open_read fuel vol ino = Inr rd \<and> reader_read_all vol rd = Inr raw \<and>
    dir_records raw 0 rs \<and>
    (\<forall>r\<in>set rs. de_file_type r \<noteq> IT_CHECKSUM \<longrightarrow> decode_name (de_name r) = Inr (name_of r)) \<and>
    length rs \<le> fuel"
  then have "open_dir_loop fuel decode_name raw 0 =
          (map (\<lambda>r. (name_of r, de_inode r, de_file_type r))
             (filter (\<lambda>r. de_file_type r \<noteq> IT_CHECKSUM) rs), StopIteration)"
    using open_dir_loop_records [of raw 0 rs decode_name name_of fuel] by blast
  with a show "Inode_open_dir fuel vol ino decode_name =
          (map (\<lambda>r. (name_of r, de_inode r, de_file_type r))
             (filter (\<lambda>r. de_file_type r \<noteq> IT_CHECKSUM) rs), StopIteration)"
    by (auto simp add: Inode_open_dir_def)
qed

text \<open>
  A volume image with the root directory at inode 2: its record lies at entry 1 of the
  inode table in block 5, its extent tree is one leaf with one extent, and its content of
  36 bytes lies in disk block 7. The directory has the entry \<^verbatim>\<open>foo\<close> for inode 15, an
  entry \<^verbatim>\<open>x\<close> with the inode number 0, and a checksum record.
\<close>

definition root_inode_record :: "byte list" where
  "root_inode_record =
     [0xED, 0x41, 0, 0, 0x24, 0, 0, 0] @ replicate 24 0 @ [0, 0, 0x08, 0] @ replicate 4 0
     @ [0x0A, 0xF3, 1, 0, 4, 0, 0, 0, 0, 0, 0, 0]
     @ [0, 0, 0, 0, 1, 0, 0, 0, 7, 0, 0, 0]
     @ replicate 96 0"

definition dir_content :: "byte list" where
  "dir_content =
     [15, 0, 0, 0, 12, 0, 3, 1, 0x66, 0x6F, 0x6F, 0,
      0, 0, 0, 0, 12, 0, 1, 1, 0x78, 0, 0, 0,
      0, 0, 0, 0, 12, 0, 0, 0xDE, 0x11, 0x22, 0x33, 0x44]"

definition dir_image :: "byte list" where
  "dir_image = replicate 5376 0 @ root_inode_record @ replicate 1632 0 @ dir_content"

definition root_inode :: Inode where
  "root_inode =
     \<lparr>inode_idx = Some 2, i_offset = 5376,
      inode = \<lparr>i_mode = 0x41ED, i_size_lo = 36, i_flags = 0x80000, i_size_hi = 0\<rparr>\<rparr>"

definition dir_records_example :: "dir_entry_2 list" where
  "dir_records_example =
     [\<lparr>de_inode = 15, de_rec_len = 12, de_name_len = 3, de_file_type = 1, de_name = [0x66, 0x6F, 0x6F]\<rparr>,
      \<lparr>de_inode = 0, de_rec_len = 12, de_name_len = 1, de_file_type = 1, de_name = [0x78]\<rparr>,
      \<lparr>de_inode = 0, de_rec_len = 12, de_name_len = 0, de_file_type = 0xDE, de_name = []\<rparr>]"

lemma root_inode_record_length: "length root_inode_record = 160"
  by (simp add: root_inode_record_def)

lemma dir_image_inode: "take 160 (drop 5376 dir_image) = root_inode_record"
  by (simp add: dir_image_def root_inode_record_length)

lemma dir_image_header:
  "take 12 (drop 5416 dir_image) = [0x0A, 0xF3, 1, 0, 4, 0, 0, 0, 0, 0, 0, 0]"
  by (simp add: dir_image_def root_inode_record_def)

lemma dir_image_extent:
  "take 12 (drop 5428 dir_image) = [0, 0, 0, 0, 1, 0, 0, 0, 7, 0, 0, 0]"
  by (simp add: dir_image_def root_inode_record_def)

lemma dir_image_content: "take 36 (drop 7168 dir_image) = dir_content"
  by (simp add: dir_image_def root_inode_record_length) (simp add: dir_content_def)

lemma parse_root_inode_record:
  "parse_ext4_inode root_inode_record = \<lparr>i_mode = 0x41ED, i_size_lo = 36, i_flags = 0x80000, i_size_hi = 0\<rparr>"
  by (simp add: parse_ext4_inode_def c_ushort_def c_uint_def field_def root_inode_record_def
      le_nat_zeros)

lemma volume_of_read_struct:
  "0 \<le> off \<Longrightarrow> off < 2 ^ 63 \<Longrightarrow> int sz < 2 ^ 63 \<Longrightarrow>
   Volume_read_struct (volume_of content) sz off =
     (if length (take sz (drop (nat off) content)) < sz then Inl ValueError
      else Inr (take sz (drop (nat off) content)))"
  by (simp add: Volume_read_struct_def stream_read_struct_def stream_read_def fits_ssize_def
      volume_of_def)

lemma root_lookup: "Volume_get_inode (volume_of dir_image) 2 = Inr root_inode"
  by (simp add: Volume_get_inode_def Volume_get_inode_group_def py_index_def volume_of_block_size
      volume_of_superblock volume_of_group_descriptors superblock_1k_def bg_inode_table_def lo_hi_def
      Inode_init_def volume_of_read_struct sizeof_ext4_inode_def dir_image_inode
      root_inode_record_length parse_root_inode_record root_inode_def)


lemma volume_of_flags:
  "ignore_magic (volume_of content) = False" "ignore_flags (volume_of content) = False"
  by (simp_all add: volume_of_def)

definition dir_block_entry :: MappingEntry where
  "dir_block_entry = \<lparr>file_block_idx = 0, disk_block_idx = 7, block_count = 1\<rparr>"

lemma root_extent_walk:
  "extent_walk (Suc fuel) (volume_of dir_image) root_inode [5416] [] = Inr [dir_block_entry]"
  by (simp add: volume_of_read_struct sizeof_ext4_extent_header_def sizeof_ext4_extent_def
      dir_image_header dir_image_extent parse_ext4_extent_header_def parse_ext4_extent_def
      parse_array_def c_ushort_def c_uint_def field_def volume_of_flags ee_start_def lo_hi_def
      dir_block_entry_def Let_def)

lemma root_open_read:
  "Inode_open_read (Suc fuel) (volume_of dir_image) root_inode
     = Inr (Block \<lparr>byte_size = 36, cursor = 0, block_map = [dir_block_entry]\<rparr>)"
proof -
  have w: "extent_walk (Suc fuel) (volume_of dir_image) root_inode
             [i_offset root_inode + i_block_offset] [] = Inr [dir_block_entry]"
    using root_extent_walk by (simp add: root_inode_def i_block_offset_def)
  have f: "(uint (i_flags (inode root_inode)) AND EXT4_EXTENTS_FL) \<noteq> 0"
    by (simp add: root_inode_def EXT4_EXTENTS_FL_def)
  have o: "optimize [dir_block_entry] [0..<length [dir_block_entry]] = ([dir_block_entry], [0])"
    by (simp add: optimize_def optimize_loop.simps)
  have s: "i_size (inode root_inode) = 36"
    by (simp add: root_inode_def i_size_def lo_hi_def)
  have i: "BlockReader_init [dir_block_entry] (volume_of dir_image) 36 [0]
     = Inr ([dir_block_entry, dir_block_entry], \<lparr>byte_size = 36, cursor = 0, block_map = [dir_block_entry]\<rparr>)"
    by (simp add: BlockReader_init_def MappingEntry_copy_def new_entry_def volume_of_block_size
        optimize_def optimize_loop.simps dir_block_entry_def)
  show ?thesis
    by (simp only: Inode_open_read_def f if_True w sum.case o prod.case s i) simp
qed

lemma dir_content_length: "length dir_content = 36"
  by (simp add: dir_content_def)

lemma root_read_all:
  "reader_read_all (volume_of dir_image) (Block \<lparr>byte_size = 36, cursor = 0, block_map = [dir_block_entry]\<rparr>)
     = Inr dir_content"
  by (simp add: reader_read_all_def BlockReader_read_def read_blocks_def volume_of_block_size
      get_block_mapping_def dir_block_entry_def volume_of_read dir_image_content
      dir_content_length Let_def)

lemma dirent_at_examples:
  "dirent_at dir_content 0 = dir_records_example ! 0"
  "dirent_at dir_content 12 = dir_records_example ! 1"
  "dirent_at dir_content 24 = dir_records_example ! 2"
  by (simp_all add: dirent_at_def field_def dir_content_def dir_records_example_def)

lemma dir_content_records: "dir_records dir_content 0 dir_records_example"
proof -
  have l: "length dir_content = 36" by (simp add: dir_content_def)
  have r3: "dir_records dir_content 36 []" by (rule dir_records_end) (simp add: l)
  have "dir_records dir_content (24 + de_rec_len (dirent_at dir_content 24)) []"
    using r3 by (simp add: dirent_at_examples dir_records_example_def)
  then have r2: "dir_records dir_content 24 [dirent_at dir_content 24]"
    by (intro dir_records_next) (simp_all add: l)
  have "dir_records dir_content (12 + de_rec_len (dirent_at dir_content 12)) [dirent_at dir_content 24]"
    using r2 by (simp add: dirent_at_examples dir_records_example_def)
  then have r1: "dir_records dir_content 12 [dirent_at dir_content 12, dirent_at dir_content 24]"
    by (intro dir_records_next) (simp_all add: l)
  have "dir_records dir_content (0 + de_rec_len (dirent_at dir_content 0))
          [dirent_at dir_content 12, dirent_at dir_content 24]"
    using r1 by (simp add: dirent_at_examples dir_records_example_def)
  then have "dir_records dir_content 0
          [dirent_at dir_content 0, dirent_at dir_content 12, dirent_at dir_content 24]"
    by (intro dir_records_next) (simp_all add: l)
  then show ?thesis by (simp add: dirent_at_examples dir_records_example_def)
qed

lemma open_dir_loop_numeral:
  "off + 8 \<le> length raw \<Longrightarrow>
   open_dir_loop (numeral k) decode_name raw off =
     (let r = dirent_at raw off in
      if de_file_type r \<noteq> IT_CHECKSUM then
        (case decode_name (de_name r) of
           Inl e \<Rightarrow> ([], Raised e)
         | Inr name \<Rightarrow>
             (case open_dir_loop (pred_numeral k) decode_name raw (off + de_rec_len r) of
                (entries, ending) \<Rightarrow> ((name, de_inode r, de_file_type r) # entries, ending)))
      else open_dir_loop (pred_numeral k) decode_name raw (off + de_rec_len r))"
  using open_dir_loop_step [of off raw "pred_numeral k" decode_name] by (simp add: numeral_eq_Suc)

text \<open>
  C1, as stated, fails. On the image, \<open>open_dir\<close> of the root directory yields the
  entry \<^verbatim>\<open>x\<close>, whose inode number is 0.
\<close>

theorem open_dir_yields_inode_zero_counterexample:
  "Volume_get_inode (volume_of dir_image) 2 = Inr root_inode \<and>
   Inode_open_dir 3 (volume_of dir_image) root_inode Inr =
     ([([0x66, 0x6F, 0x6F], 15, 1), ([0x78], 0, 1)], StopIteration)"
proof -
  have r: "Inode_open_read 3 (volume_of dir_image) root_inode
     = Inr (Block \<lparr>byte_size = 36, cursor = 0, block_map = [dir_block_entry]\<rparr>)"
    using root_open_read [of 2] by simp
  have d: "\<not> (\<not> ignore_flags (volume_of dir_image) \<and> \<not> is_dir root_inode)"
    by (simp add: is_dir_def root_inode_def S_IFDIR_def)
  have l: "length dir_content = 36" by (simp add: dir_content_def)
  have loop: "open_dir_loop 3 Inr dir_content 0 =
     ([([0x66, 0x6F, 0x6F], 15, 1), ([0x78], 0, 1)], StopIteration)"
    by (simp add: open_dir_loop_numeral l dirent_at_examples dir_records_example_def IT_CHECKSUM_def
        open_dir_loop_step [of _ _ 0] open_dir_loop_end)
  show ?thesis
    by (simp only: root_lookup Inode_open_dir_def d if_False r sum.case root_read_all loop)
qed

text \<open>
  On the image, with the decoder that returns the raw name: the three records give the
  two tuples, the checksum record gives none.
\<close>

theorem open_dir_yields_records_witness:
  "is_dir root_inode \<and>
   Inode_open_read 3 (volume_of dir_image) root_inode
     = Inr (Block \<lparr>byte_size = 36, cursor = 0, block_map = [dir_block_entry]\<rparr>) \<and>
   reader_read_all (volume_of dir_image) (Block \<lparr>byte_size = 36, cursor = 0, block_map = [dir_block_entry]\<rparr>)
     = Inr dir_content \<and>
   dir_records dir_content 0 dir_records_example \<and>
   length dir_records_example \<le> 3 \<and>
   Inode_open_dir 3 (volume_of dir_image) root_inode Inr =
     ([([0x66, 0x6F, 0x6F], 15, 1), ([0x78], 0, 1)], StopIteration)"
proof -
  have d: "is_dir root_inode" by (simp add: is_dir_def root_inode_def S_IFDIR_def)
  have r: "Inode_open_read 3 (volume_of dir_image) root_inode
     = Inr (Block \<lparr>byte_size = 36, cursor = 0, block_map = [dir_block_entry]\<rparr>)"
    using root_open_read [of 2] by simp
  have n: "\<forall>r\<in>set dir_records_example. de_file_type r \<noteq> IT_CHECKSUM \<longrightarrow> Inr (de_name r) = Inr (de_name r)"
    by simp
  have l: "length dir_records_example \<le> 3" by (simp add: dir_records_example_def)
  have "Inode_open_dir 3 (volume_of dir_image) root_inode Inr =
          (map (\<lambda>r. (de_name r, de_inode r, de_file_type r))
             (filter (\<lambda>r. de_file_type r \<noteq> IT_CHECKSUM) dir_records_example), StopIteration)"
    using open_dir_yields_records [of 3 "volume_of dir_image" root_inode Inr
        "Block \<lparr>byte_size = 36, cursor = 0, block_map = [dir_block_entry]\<rparr>" dir_content
        dir_records_example de_name]
      d r root_read_all dir_content_records n l
    by blast
  then have "Inode_open_dir 3 (volume_of dir_image) root_inode Inr =
     ([([0x66, 0x6F, 0x6F], 15, 1), ([0x78], 0, 1)], StopIteration)"
    by (simp add: dir_records_example_def IT_CHECKSUM_def)
  with d r root_read_all dir_content_records l show ?thesis by simp
qed

subsection \<open>Errors of the path walk\<close>

text \<open>
  A volume that the constructor returns has a non-zero \<open>inodes_per_group\<close> and the
  switches, the stream and the base offset it was given.
\<close>

lemma Volume_init_fields:
  "Volume_init stream0 offset0 flags0 magic0 = Inr vol \<Longrightarrow>
   s_inodes_per_group (superblock vol) \<noteq> 0 \<and> ignore_flags vol = flags0 \<and> ignore_magic vol = magic0
   \<and> stream vol = stream0 \<and> v_offset vol = offset0"
  by (auto simp add: Volume_init_def Let_def split: sum.splits if_splits)

text \<open>
  Which errors the operations below a path walk can raise: none of them is the
  not-a-directory error, unless the caller's decoder raises it.
\<close>

lemma Volume_read_error:
  "Volume_read vol off n = Inl e \<Longrightarrow> e = ValueError \<or> e = OverflowError"
  by (auto simp add: Volume_read_def stream_read_def split: if_splits)

lemma Volume_read_struct_error:
  "Volume_read_struct vol sz off = Inl e \<Longrightarrow> e = ValueError \<or> e = OverflowError"
  by (auto simp add: Volume_read_struct_def stream_read_struct_def stream_read_def
      split: if_splits)

lemma format_d_not_a_directory:
  "e \<noteq> Ext4Error NotADirectory \<Longrightarrow> format_d idx e \<noteq> Ext4Error NotADirectory"
  by (simp add: format_d_def split: option.splits)

lemma extent_walk_error:
  "extent_walk fuel vol ino nodes mapping = Inl e \<Longrightarrow> e \<noteq> Ext4Error NotADirectory"
proof (induction fuel vol ino nodes mapping rule: extent_walk.induct)
  case (1 fuel vol ino mapping)
  then show ?case by simp
next
  case (2 vol ino header_offset nodes mapping)
  then show ?case by auto
next
  case (3 fuel vol ino header_offset nodes mapping)
  show ?case
  proof (cases "Volume_read_struct vol sizeof_ext4_extent_header header_offset")
    case (Inl x)
    with 3(3) Volume_read_struct_error [OF Inl] show ?thesis by auto
  next
    case (Inr hbuf)
    let ?h = "parse_ext4_extent_header hbuf"
    show ?thesis
    proof (cases "\<not> ignore_magic vol \<and> eh_magic ?h \<noteq> 0xF30A")
      case True
      with 3(3) Inr have "e = format_d (inode_idx ino) MagicError" by simp
      then show ?thesis by (simp add: format_d_not_a_directory)
    next
      case magic: False
      show ?thesis
      proof (cases "eh_depth ?h \<noteq> 0")
        case True
        show ?thesis
        proof (cases "Volume_read_struct vol (sizeof_ext4_extent_idx * unat (eh_entries ?h))
                     (header_offset + int sizeof_ext4_extent_header)")
          case (Inl x)
          with 3(3) Inr magic True Volume_read_struct_error [OF Inl] show ?thesis by auto
        next
          case buf: (Inr buf)
          from 3(1) [OF Inr refl magic True buf] 3(3) Inr magic True buf show ?thesis by simp
        qed
      next
        case False
        show ?thesis
        proof (cases "Volume_read_struct vol (sizeof_ext4_extent * unat (eh_entries ?h))
                     (header_offset + int sizeof_ext4_extent_header)")
          case (Inl x)
          with 3(3) Inr magic False Volume_read_struct_error [OF Inl] show ?thesis by auto
        next
          case buf: (Inr buf)
          from 3(2) [OF Inr refl magic False buf] 3(3) Inr magic False buf show ?thesis by simp
        qed
      qed
    qed
  qed
qed

lemma BlockReader_init_error: "BlockReader_init st vol n bm = Inl e \<Longrightarrow> e = BlockMapError"
  by (simp add: BlockReader_init_def Let_def split: prod.splits if_splits)

lemma Inode_open_read_error:
  "Inode_open_read fuel vol ino = Inl e \<Longrightarrow> e \<noteq> Ext4Error NotADirectory"
  by (auto simp add: Inode_open_read_def ext4_inode_getattr_def ext4_struct_getattr_def
      ext4_inode_fields_def
      dest: extent_walk_error BlockReader_init_error Volume_read_error
      split: if_splits sum.splits prod.splits)

lemma get_block_mapping_loop_error: "get_block_mapping_loop bm fbi = Inl e \<Longrightarrow> e = BlockMapError"
  by (induction bm) (simp_all split: if_splits)

lemma get_range_mapping_error: "get_range_mapping r fbi cnt = Inl e \<Longrightarrow> e = BlockMapError"
  by (simp add: get_range_mapping_def Let_def split: if_splits)

lemma read_middle_error:
  "read_middle vol ms n = Inl e \<Longrightarrow> e = ValueError \<or> e = OverflowError"
proof (induction ms arbitrary: n)
  case Nil
  then show ?case by simp
next
  case (Cons m ms)
  then show ?case
    by (auto dest: Volume_read_error split: sum.splits prod.splits)
qed

lemma read_sprayed_error:
  "read_sprayed vol mapping off n = Inl e \<Longrightarrow> e = ValueError \<or> e = OverflowError"
  by (auto simp add: read_sprayed_def dest: Volume_read_error read_middle_error
      split: sum.splits prod.splits)

lemma read_blocks_error:
  "read_blocks vol r n = Inl e \<Longrightarrow> e = ValueError \<or> e = OverflowError \<or> e = BlockMapError"
  by (auto simp add: read_blocks_def Let_def get_block_mapping_def
      dest: Volume_read_error read_sprayed_error get_block_mapping_loop_error get_range_mapping_error
      split: sum.splits if_splits)

lemma BlockReader_read_error:
  "fst (BlockReader_read vol r n) = Inl e \<Longrightarrow> e \<noteq> Ext4Error NotADirectory"
  by (auto simp add: BlockReader_read_def Let_def dest: read_blocks_error
      split: sum.splits if_splits)

lemma reader_read_all_error:
  "reader_read_all vol rd = Inl e \<Longrightarrow> e \<noteq> Ext4Error NotADirectory"
  by (cases rd) (auto simp add: reader_read_all_def dest: BlockReader_read_error)

lemma open_dir_loop_ending:
  assumes "\<forall>raw_name e. decode_name raw_name = Inl e \<longrightarrow> e \<noteq> Ext4Error NotADirectory"
  shows "open_dir_loop fuel decode_name raw off = (entries, ending) \<Longrightarrow>
         ending \<noteq> Raised (Ext4Error NotADirectory)"
proof (induction fuel arbitrary: off entries ending)
  case 0
  then show ?case by (auto simp add: open_dir_loop.simps split: if_splits)
next
  case (Suc fuel)
  show ?case
    using Suc.prems Suc.IH assms
    by (auto simp add: open_dir_loop.simps Let_def split: if_splits sum.splits prod.splits)
qed

lemma Inode_open_dir_ending:
  assumes "\<forall>raw_name e. decode_name raw_name = Inl e \<longrightarrow> e \<noteq> Ext4Error NotADirectory"
    and "ignore_flags vol"
    and "Inode_open_dir fuel vol ino decode_name = (entries, ending)"
  shows "ending \<noteq> Raised (Ext4Error NotADirectory)"
  using assms(2,3) open_dir_loop_ending [OF assms(1)]
  by (auto simp add: Inode_open_dir_def dest: Inode_open_read_error reader_read_all_error
      split: sum.splits)

lemma Volume_get_inode_error:
  "Volume_get_inode vol idx = Inl e \<Longrightarrow> e \<noteq> Ext4Error NotADirectory"
  by (auto simp add: Volume_get_inode_def Volume_get_inode_group_def py_index_def Let_def
      Inode_init_def dest: Volume_read_struct_error split: sum.splits if_splits prod.splits)

lemma get_inode_loop_ignore_flags:
  assumes "\<forall>raw_name e. decode_name raw_name = Inl e \<longrightarrow> e \<noteq> Ext4Error NotADirectory"
    and "ignore_flags vol"
  shows "get_inode_loop fuel vol decode_name current relative_path \<noteq> Inl (Ext4Error NotADirectory)"
proof (induction relative_path arbitrary: current)
  case Nil
  then show ?case by simp
next
  case (Cons part rest)
  obtain entries ending where od: "Inode_open_dir fuel vol current decode_name = (entries, ending)"
    by (cases "Inode_open_dir fuel vol current decode_name")
  have en: "ending \<noteq> Raised (Ext4Error NotADirectory)"
    using assms od by (rule Inode_open_dir_ending)
  show ?case
    using assms(2) od en Cons.IH
    by (auto simp add: format_d_def dest: Volume_get_inode_error
        split: option.splits prod.splits sum.splits gen_end.splits)
qed

text \<open>
  With \<open>ignore_flags\<close> set, the walk raises the not-a-directory error for no inode
  behind the starting one: from a starting inode that is a directory, \<open>get_inode\<close> never
  ends in that error.
\<close>

lemma get_inode_ignore_flags_only_start:
  assumes "\<forall>raw_name e. decode_name raw_name = Inl e \<longrightarrow> e \<noteq> Ext4Error NotADirectory"
    and "ignore_flags vol" and "is_dir self"
  shows "Inode_get_inode fuel vol self relative_path decode_name \<noteq> Inl (Ext4Error NotADirectory)"
  using assms(3) get_inode_loop_ignore_flags [OF assms(1,2)] by (simp add: Inode_get_inode_def)

end
